theory Spec2Isabelle
  imports Complex_Main "HOL-Library.Multiset"
begin

section \<open>JavaScript values and strings\<close>

text \<open>
  A JavaScript string is modelled as a HOL \<open>string\<close>: one \<open>char\<close> per UTF-16 code unit,
  restricted to the code units below 256, so that \<open>length\<close> is the \<open>.length\<close> of the
  source. The values that reach the response generator are strings in every call the
  services make themselves; the other shapes a caller can pass are kept, because the
  generator's failure path is a \<open>TypeError\<close> on exactly those.
\<close>

datatype js_value =
    JsUndefined
  | JsNull
  | JsBool bool
  | JsNumber int
  | JsString string
  | JsObject

fun truthy :: "js_value \<Rightarrow> bool" where
  "truthy JsUndefined = False"
| "truthy JsNull = False"
| "truthy (JsBool b) = b"
| "truthy (JsNumber n) = (n \<noteq> 0)"
| "truthy (JsString s) = (s \<noteq> [])"
| "truthy JsObject = True"

text \<open>\<open>a || b\<close> on values.\<close>

definition js_or :: "js_value \<Rightarrow> js_value \<Rightarrow> js_value" where
  "js_or a b = (if truthy a then a else b)"

text \<open>
  JSON documents (conversation and message metadata, the request context). The database
  column holds the text \<open>JSON.stringify\<close> produced and every reader applies
  \<open>JSON.parse\<close> to it; the model stores the document itself.
\<close>

datatype json =
    JsonNull
  | JsonString string
  | JsonNumber rat
  | JsonObject "(string \<times> json) list"

datatype error =
    PersistenceError
  | ConversationNotFound
  | NoMarketDataFound
  | TypeError

text \<open>
  \<open>String.prototype.toLowerCase\<close> on code units below 256: \<open>A\<close>..\<open>Z\<close> and the
  Latin-1 capitals (192..222 without the multiplication sign 215) move up by 32.
\<close>

definition lower_char :: "char \<Rightarrow> char" where
  "lower_char c =
     (let n = (of_char c :: nat)
      in if (65 \<le> n \<and> n \<le> 90) \<or> (192 \<le> n \<and> n \<le> 222 \<and> n \<noteq> 215)
         then char_of (n + 32) else c)"

definition toLowerCase :: "string \<Rightarrow> string" where
  "toLowerCase s = map lower_char s"

fun startsWith :: "string \<Rightarrow> string \<Rightarrow> bool" where
  "startsWith s [] = True"
| "startsWith [] (c # cs) = False"
| "startsWith (x # xs) (c # cs) = (x = c \<and> startsWith xs cs)"

text \<open>\<open>String.prototype.includes\<close>: the search string occurs at some position.\<close>

fun str_includes :: "string \<Rightarrow> string \<Rightarrow> bool" where
  "str_includes [] sub = (sub = [])"
| "str_includes (x # xs) sub = (startsWith (x # xs) sub \<or> str_includes xs sub)"

section \<open>Token estimate\<close>

text \<open>
  \<open>Math.ceil(text.length / 4)\<close>, once in the conversation manager and once in the AI
  service. A length is an integer below \<open>2^53\<close> and 4 is a power of two, so the double
  division is exact and the quotient is the real one.
\<close>

definition ConversationManager_estimateTokenCount :: "string \<Rightarrow> int" where
  "ConversationManager_estimateTokenCount text = \<lceil>real (length text) / 4\<rceil>"

definition AIService_estimateTokenCount :: "string \<Rightarrow> int" where
  "AIService_estimateTokenCount text = \<lceil>real (length text) / 4\<rceil>"

section \<open>Configuration (aiConfig.js)\<close>

record ai_config =
  model :: string
  temperature :: rat
  systemPromptVersion :: string

record prompts =
  base :: string
  conversation :: string
  error :: string

definition prompts_v2_0 :: prompts where
  "prompts_v2_0 = \<lparr>
     base = ''You are Rachel, a knowledgeable real estate assistant. Help with property searches, market analysis, viewings, and guidance. Be professional, warm, patient with first-time buyers, efficient with investors. Ask clarifying questions, provide actionable information, respect privacy, never guarantee values.'',
     conversation = ''Continue as Rachel, the real estate assistant. Maintain consistency with conversation history and adapt based on client's experience level, preferences, communication style, and process stage. Reference previous points, ask follow-ups, provide next steps.'',
     error = ''I apologize for the technical issue. As Rachel, I can help with property searches, market analysis, viewings, process guidance, and agent connections. Please rephrase your question.'' \<rparr>"

text \<open>
  The table \<open>SYSTEM_PROMPTS\<close> is an object literal with the one own key \<open>v2.0\<close>.
  \<open>SYSTEM_PROMPTS[promptVersion]\<close> is a property read on a plain object, so it also
  finds what the object inherits from \<open>Object.prototype\<close>: a function, or for
  \<open>__proto__\<close> the prototype object itself, each of them truthy.
\<close>

definition Object_prototype_members :: "string list" where
  "Object_prototype_members =
     [''constructor'', ''__defineGetter__'', ''__defineSetter__'', ''hasOwnProperty'',
      ''__lookupGetter__'', ''__lookupSetter__'', ''isPrototypeOf'', ''propertyIsEnumerable'',
      ''toString'', ''valueOf'', ''__proto__'', ''toLocaleString'']"

datatype table_entry = Own prompts | Inherited | Absent

definition SYSTEM_PROMPTS :: "string \<Rightarrow> table_entry" where
  "SYSTEM_PROMPTS version =
     (if version = ''v2.0'' then Own prompts_v2_0
      else if version \<in> set Object_prototype_members then Inherited
      else Absent)"

text \<open>
  The \<open>type\<close> argument: every call in the sources passes one of the literals
  \<open>'base'\<close>, \<open>'conversation'\<close> and \<open>'error'\<close>. None of the three names a property of
  a function or of \<open>Object.prototype\<close>, so on an inherited entry \<open>prompts[type]\<close> and
  \<open>prompts.base\<close> are both \<open>undefined\<close>.
\<close>

datatype prompt_type = PromptBase | PromptConversation | PromptError

text \<open>\<open>prompts[type]\<close> on a prompt object of the table.\<close>

fun prompt_of :: "prompts \<Rightarrow> prompt_type \<Rightarrow> string" where
  "prompt_of p PromptBase = base p"
| "prompt_of p PromptConversation = conversation p"
| "prompt_of p PromptError = error p"

text \<open>\<open>prompts[type] || prompts.base\<close> on a prompt object of the table.\<close>

definition prompt_or_base :: "prompts \<Rightarrow> prompt_type \<Rightarrow> string" where
  "prompt_or_base p type = (if prompt_of p type \<noteq> [] then prompt_of p type else base p)"

text \<open>The result is a string, or \<open>undefined\<close> (here \<open>None\<close>).\<close>

definition getSystemPrompt :: "ai_config \<Rightarrow> prompt_type \<Rightarrow> string option \<Rightarrow> string option" where
  "getSystemPrompt cfg type version =
     (let promptVersion =
            (case version of
               Some v \<Rightarrow> if v \<noteq> [] then v else systemPromptVersion cfg
             | None \<Rightarrow> systemPromptVersion cfg)
      in case SYSTEM_PROMPTS promptVersion of
           Absent \<Rightarrow> Some (prompt_or_base prompts_v2_0 type)
         | Own p \<Rightarrow> Some (prompt_or_base p type)
         | Inherited \<Rightarrow> None)"

text \<open>A string or \<open>undefined\<close> as a value.\<close>

definition js_of :: "string option \<Rightarrow> js_value" where
  "js_of v = (case v of Some s \<Rightarrow> JsString s | None \<Rightarrow> JsUndefined)"

section \<open>Response generation (aiService.js)\<close>

record context_entry =
  role :: string
  content :: js_value

text \<open>
  The \<open>conversationContext\<close> argument: an array of entries, or \<open>null\<close>/\<open>undefined\<close>,
  on which reading \<open>.length\<close> throws.
\<close>

datatype context_arg = JsNullish | JsArray "context_entry list"

text \<open>\<open>conversationContext[conversationContext.length - 1]?.content\<close>.\<close>

definition last_content :: "context_entry list \<Rightarrow> js_value" where
  "last_content entries = (if entries = [] then JsUndefined else content (last entries))"

definition simulateAIResponse :: "context_arg \<Rightarrow> json \<Rightarrow> error + string" where
  "simulateAIResponse conversationContext context =
     (case conversationContext of
        JsNullish \<Rightarrow> Inl TypeError
      | JsArray entries \<Rightarrow>
          (case js_or (last_content entries) (JsString []) of
             JsString userMessage \<Rightarrow>
               if str_includes (toLowerCase userMessage) ''property'' \<or> str_includes (toLowerCase userMessage) ''house''
               then Inr ''I'd be happy to help you with your property search! To provide you with the best recommendations, I'd like to know more about what you're looking for. What type of property interests you - residential, commercial, or investment? Also, do you have a preferred location or price range in mind?''
               else if str_includes (toLowerCase userMessage) ''price'' \<or> str_includes (toLowerCase userMessage) ''market''
               then Inr ''Market analysis is one of my specialties! Property values can vary significantly based on location, property type, and current market conditions. To give you accurate pricing information, could you tell me the specific area you're interested in? I can provide recent sales data and market trends for that location.''
               else if str_includes (toLowerCase userMessage) ''schedule'' \<or> str_includes (toLowerCase userMessage) ''viewing''
               then Inr ''I can absolutely help you schedule property viewings! I work with a network of experienced real estate agents who can arrange showings at your convenience. What properties are you interested in viewing, and what days/times work best for you?''
               else if str_includes (toLowerCase userMessage) ''agent'' \<or> str_includes (toLowerCase userMessage) ''realtor''
               then Inr ''I'd be pleased to connect you with one of our qualified real estate agents! Our agents specialize in different areas and property types. What type of real estate services do you need, and what's your preferred location? This will help me match you with the most suitable agent.''
               else Inr ''Hello! I'm Rachel, your real estate assistant. I'm here to help you with property searches, market analysis, scheduling viewings, and connecting you with the right real estate professionals. What can I assist you with today?''
           | _ \<Rightarrow> Inl TypeError))"

record ai_response =
  ai_content :: "string option"
  ai_responseTime :: int
  ai_tokenCount :: int
  ai_model :: string
  ai_error :: bool

text \<open>
  \<open>generateAIResponse\<close>: \<open>startTime\<close> and \<open>endTime\<close> are the two readings of
  \<open>Date.now()\<close>. The \<open>try\<close> block is the \<open>Inr\<close> branch of the simulated call, the
  \<open>catch\<close> block the \<open>Inl\<close> branch; the result type keeps an error alternative for what
  the method could let through. The content is the response, or what
  \<open>getSystemPrompt('error')\<close> returned.
\<close>

definition generateAIResponse ::
  "ai_config \<Rightarrow> int \<Rightarrow> int \<Rightarrow> context_arg \<Rightarrow> json \<Rightarrow> error + ai_response" where
  "generateAIResponse cfg startTime endTime conversationContext context =
     (case simulateAIResponse conversationContext context of
        Inr response \<Rightarrow>
          Inr \<lparr> ai_content = Some response,
                ai_responseTime = endTime - startTime,
                ai_tokenCount = AIService_estimateTokenCount response,
                ai_model = model cfg,
                ai_error = False \<rparr>
      | Inl e \<Rightarrow>
          Inr \<lparr> ai_content = getSystemPrompt cfg PromptError None,
                ai_responseTime = endTime - startTime,
                ai_tokenCount = 100,
                ai_model = model cfg,
                ai_error = True \<rparr>)"

subsection \<open>The classifier as the specification words it\<close>

text \<open>
  The specification describes the generator as a dispatch on an intent, each intent with
  one canned paragraph, the keyword pairs tried in the order given and the greeting as
  the default.
\<close>

datatype Intent = Property | Pricing | Scheduling | AgentRequest | Generic

definition classify :: "string \<Rightarrow> Intent" where
  "classify lowered =
     (if str_includes lowered ''property'' \<or> str_includes lowered ''house'' then Property
      else if str_includes lowered ''price'' \<or> str_includes lowered ''market'' then Pricing
      else if str_includes lowered ''schedule'' \<or> str_includes lowered ''viewing'' then Scheduling
      else if str_includes lowered ''agent'' \<or> str_includes lowered ''realtor'' then AgentRequest
      else Generic)"

fun canned_paragraph :: "Intent \<Rightarrow> string" where
  "canned_paragraph Property = ''I'd be happy to help you with your property search! To provide you with the best recommendations, I'd like to know more about what you're looking for. What type of property interests you - residential, commercial, or investment? Also, do you have a preferred location or price range in mind?''"
| "canned_paragraph Pricing = ''Market analysis is one of my specialties! Property values can vary significantly based on location, property type, and current market conditions. To give you accurate pricing information, could you tell me the specific area you're interested in? I can provide recent sales data and market trends for that location.''"
| "canned_paragraph Scheduling = ''I can absolutely help you schedule property viewings! I work with a network of experienced real estate agents who can arrange showings at your convenience. What properties are you interested in viewing, and what days/times work best for you?''"
| "canned_paragraph AgentRequest = ''I'd be pleased to connect you with one of our qualified real estate agents! Our agents specialize in different areas and property types. What type of real estate services do you need, and what's your preferred location? This will help me match you with the most suitable agent.''"
| "canned_paragraph Generic = ''Hello! I'm Rachel, your real estate assistant. I'm here to help you with property searches, market analysis, scheduling viewings, and connecting you with the right real estate professionals. What can I assist you with today?''"

section \<open>The relational store\<close>

text \<open>
  The services keep no state of their own: every method sends one SQL batch through
  \<open>database.executeQuery\<close>. The store is modelled as its two tables, each a list of
  rows in insertion order, and every statement by what it selects or changes in them.
  Timestamps are integers (milliseconds); \<open>GETDATE()\<close> and \<open>new Date()\<close> are readings
  of one clock, passed in with the call. No schema is part of the sources, so no key or
  foreign-key constraint is assumed: an \<open>INSERT\<close> always adds its row, and strings
  compare by equality (no collation). The calls to the logger and its timers change
  nothing the services read and are left out.
\<close>

record conversation_row =
  conversation_id :: string
  user_id :: string
  created_at :: int
  updated_at :: int
  status :: string
  metadata :: json
  message_count :: int

record message_row =
  message_id :: string
  msg_conversation_id :: string
  msg_role :: string
  msg_content :: string
  msg_created_at :: int
  msg_metadata :: json
  token_count :: int

record store =
  Conversations :: "conversation_row list"
  Messages :: "message_row list"

text \<open>
  The shape of a paginated \<open>SELECT\<close>: which of \<open>TOP\<close>, \<open>OFFSET\<close> and
  \<open>FETCH NEXT\<close> its text uses. The engine parses a statement before it runs it, and a
  statement its dialect does not accept fails as a whole. The engine behind
  \<open>database.js\<close> is Microsoft SQL Server (the \<open>mssql\<close> driver; the statements use
  \<open>GETDATE()\<close>, \<open>TOP\<close> and \<open>DATEADD\<close>), whose dialect accepts \<open>TOP\<close> only in a
  query without \<open>OFFSET\<close> (error 10741 otherwise) and \<open>FETCH\<close> only after
  \<open>OFFSET\<close>. The rule is the engine's, not the repository's, so the dialect is a
  part of what a call takes from outside; \<open>tsql_accepts\<close> is SQL Server's, and
  \<open>any_shape\<close> that of an engine that would take every shape.
\<close>

record select_shape =
  with_top :: bool
  with_offset :: bool
  with_fetch :: bool

definition tsql_accepts :: "select_shape \<Rightarrow> bool" where
  "tsql_accepts q =
     (if with_top q then \<not> with_offset q \<and> \<not> with_fetch q
      else with_offset q \<or> \<not> with_fetch q)"

definition any_shape :: "select_shape \<Rightarrow> bool" where
  "any_shape q = True"

text \<open>
  What a call takes from outside the program: the identifier \<open>uuidv4()\<close> draws, the
  database clock, the process clock, whether the gateway fails, the dialect of the
  engine, and the local time zone of the process. \<open>fault = Some k\<close> means the
  connection is lost when statement \<open>k\<close> of the batch (counted from 0) is about to run;
  \<open>executeQuery\<close> then throws. \<open>None\<close>, or a \<open>k\<close> past the end of the batch, means
  the batch runs through. \<open>LocalTZA t isUTC\<close> is ECMAScript's local time zone
  adjustment in milliseconds: the offset of local time from UTC at the instant \<open>t\<close>,
  for \<open>t\<close> a UTC time value (\<open>isUTC\<close>) or a local one.
\<close>

record io =
  uuid :: string
  getdate :: int
  date_now :: int
  fault :: "nat option"
  dialect :: "select_shape \<Rightarrow> bool"
  LocalTZA :: "int \<Rightarrow> bool \<Rightarrow> int"

subsection \<open>Batches and transactions\<close>

datatype statement =
    BEGIN_TRANSACTION
  | COMMIT_TRANSACTION
  | DML "store \<Rightarrow> store"

text \<open>
  A connection holds the committed tables and, inside a transaction, the working copy
  the statements of the transaction change. Outside a transaction every statement
  commits by itself.
\<close>

record connection =
  committed :: store
  transaction :: "store option"

fun execute :: "statement \<Rightarrow> connection \<Rightarrow> connection" where
  "execute BEGIN_TRANSACTION c =
     (case transaction c of
        None \<Rightarrow> c\<lparr>transaction := Some (committed c)\<rparr>
      | Some w \<Rightarrow> c)"
| "execute COMMIT_TRANSACTION c =
     (case transaction c of
        None \<Rightarrow> c
      | Some w \<Rightarrow> \<lparr>committed = w, transaction = None\<rparr>)"
| "execute (DML f) c =
     (case transaction c of
        None \<Rightarrow> c\<lparr>committed := f (committed c)\<rparr>
      | Some w \<Rightarrow> c\<lparr>transaction := Some (f w)\<rparr>)"

text \<open>
  Running a batch: the statements in order; when the connection is lost the open
  transaction is rolled back and the batch reports failure. A statement that fails by
  itself while the batch goes on (a constraint violation) has no place here, there being
  no constraint in the sources.
\<close>

fun run_batch :: "statement list \<Rightarrow> nat option \<Rightarrow> connection \<Rightarrow> bool \<times> connection" where
  "run_batch [] flt c = (True, c)"
| "run_batch (s # ss) flt c =
     (if flt = Some 0 then (False, c\<lparr>transaction := None\<rparr>)
      else run_batch ss (map_option (\<lambda>k. k - 1) flt) (execute s c))"

definition executeBatch :: "statement list \<Rightarrow> nat option \<Rightarrow> store \<Rightarrow> bool \<times> store" where
  "executeBatch batch flt db =
     (let (ok, c) = run_batch batch flt \<lparr>committed = db, transaction = None\<rparr>
      in (ok, committed c))"

text \<open>A single \<open>SELECT\<close> or \<open>UPDATE\<close> fails exactly when the connection is lost before it.\<close>

definition query_fails :: "nat option \<Rightarrow> bool" where
  "query_fails flt = (flt = Some 0)"

text \<open>A paginated \<open>SELECT\<close> fails also when the engine does not accept its shape.\<close>

definition select_fails :: "io \<Rightarrow> select_shape \<Rightarrow> bool" where
  "select_fails i q = (query_fails (fault i) \<or> \<not> dialect i q)"

section \<open>Conversation manager (conversationManager.js)\<close>

record ConversationManager =
  maxConversationLength :: nat
  dataRetentionDays :: int

text \<open>
  The constructor: \<open>parseInt(process.env.X) || default\<close>, the argument being what
  \<open>parseInt\<close> returned (\<open>None\<close> for \<open>NaN\<close>). The memory limit is a row count, taken
  as a natural number.
\<close>

definition new_ConversationManager :: "nat option \<Rightarrow> int option \<Rightarrow> ConversationManager" where
  "new_ConversationManager memoryLimit retentionDays =
     \<lparr> maxConversationLength =
         (case memoryLimit of Some n \<Rightarrow> if n \<noteq> 0 then n else 20 | None \<Rightarrow> 20),
       dataRetentionDays =
         (case retentionDays of Some d \<Rightarrow> if d \<noteq> 0 then d else 90 | None \<Rightarrow> 90) \<rparr>"

record conversation =
  conversationId :: string
  userId :: string
  createdAt :: int
  updatedAt :: "int option"
  conv_status :: string
  conv_metadata :: json
  messageCount :: int

record message =
  messageId :: string
  msg_conversationId :: "string option"
  message_role :: string
  message_content :: string
  message_createdAt :: int
  message_metadata :: json
  tokenCount :: int

text \<open>\<open>userId || 'anonymous'\<close>.\<close>

definition userId_or_anonymous :: "string option \<Rightarrow> string" where
  "userId_or_anonymous u = (case u of Some s \<Rightarrow> if s \<noteq> [] then s else ''anonymous'' | None \<Rightarrow> ''anonymous'')"

definition insert_conversation :: "conversation_row \<Rightarrow> store \<Rightarrow> store" where
  "insert_conversation r db = db\<lparr>Conversations := Conversations db @ [r]\<rparr>"

definition createConversation ::
  "io \<Rightarrow> string option \<Rightarrow> json \<Rightarrow> store \<Rightarrow> (error + conversation) \<times> store" where
  "createConversation i uid meta db =
     (let cid = uuid i;
          (ok, db') = executeBatch
            [DML (insert_conversation
               \<lparr> conversation_id = cid, user_id = userId_or_anonymous uid,
                 created_at = getdate i, updated_at = getdate i, status = ''active'',
                 metadata = meta, message_count = 0 \<rparr>)] (fault i) db
      in if ok
         then (Inr \<lparr> conversationId = cid, userId = userId_or_anonymous uid,
                     createdAt = date_now i, updatedAt = None, conv_status = ''active'',
                     conv_metadata = meta, messageCount = 0 \<rparr>, db')
         else (Inl PersistenceError, db'))"

text \<open>
  \<open>SELECT ... FROM Conversations WHERE conversation_id = @conversationId AND status != 'deleted'\<close>
\<close>

definition select_conversation :: "string \<Rightarrow> store \<Rightarrow> conversation_row list" where
  "select_conversation cid db =
     filter (\<lambda>r. conversation_id r = cid \<and> status r \<noteq> ''deleted'') (Conversations db)"

definition conversation_of_row :: "conversation_row \<Rightarrow> conversation" where
  "conversation_of_row r =
     \<lparr> conversationId = conversation_id r, userId = user_id r, createdAt = created_at r,
       updatedAt = Some (updated_at r), conv_status = status r, conv_metadata = metadata r,
       messageCount = message_count r \<rparr>"

definition getConversation :: "io \<Rightarrow> string \<Rightarrow> store \<Rightarrow> error + conversation option" where
  "getConversation i cid db =
     (if query_fails (fault i) then Inl PersistenceError
      else case select_conversation cid db of
             [] \<Rightarrow> Inr None
           | r # rs \<Rightarrow> Inr (Some (conversation_of_row r)))"

definition insert_message :: "message_row \<Rightarrow> store \<Rightarrow> store" where
  "insert_message r db = db\<lparr>Messages := Messages db @ [r]\<rparr>"

text \<open>
  \<open>UPDATE Conversations SET message_count = message_count + 1, updated_at = GETDATE()
  WHERE conversation_id = @conversationId\<close>
\<close>

definition increment_message_count :: "string \<Rightarrow> int \<Rightarrow> store \<Rightarrow> store" where
  "increment_message_count cid now db =
     db\<lparr>Conversations :=
          map (\<lambda>r. if conversation_id r = cid
                    then r\<lparr>message_count := message_count r + 1, updated_at := now\<rparr>
                    else r) (Conversations db)\<rparr>"

text \<open>The batch of \<open>addMessage\<close>, statement by statement.\<close>

definition addMessage_batch :: "io \<Rightarrow> string \<Rightarrow> string \<Rightarrow> string \<Rightarrow> json \<Rightarrow> statement list" where
  "addMessage_batch i cid rl text meta =
     [ BEGIN_TRANSACTION,
       DML (insert_message
         \<lparr> message_id = uuid i, msg_conversation_id = cid, msg_role = rl, msg_content = text,
           msg_created_at = getdate i, msg_metadata = meta,
           token_count = ConversationManager_estimateTokenCount text \<rparr>),
       DML (increment_message_count cid (getdate i)),
       COMMIT_TRANSACTION ]"

definition addMessage ::
  "io \<Rightarrow> string \<Rightarrow> string \<Rightarrow> string \<Rightarrow> json \<Rightarrow> store \<Rightarrow> (error + message) \<times> store" where
  "addMessage i cid rl text meta db =
     (let (ok, db') = executeBatch (addMessage_batch i cid rl text meta) (fault i) db
      in if ok
         then (Inr \<lparr> messageId = uuid i, msg_conversationId = Some cid, message_role = rl,
                     message_content = text, message_createdAt = date_now i,
                     message_metadata = meta,
                     tokenCount = ConversationManager_estimateTokenCount text \<rparr>, db')
         else (Inl PersistenceError, db'))"

text \<open>
  \<open>SELECT TOP (@limit) ... FROM Messages WHERE conversation_id = @conversationId
  ORDER BY created_at DESC OFFSET @offset ROWS\<close>: a query with \<open>TOP\<close> and \<open>OFFSET\<close>.
  Where the engine accepts it, it is read as: the rows of the conversation, newest
  first, without the first \<open>@offset\<close>, at most \<open>@limit\<close> of them. Rows with equal
  timestamps are left in table order (a stable sort): SQL does not fix their order.
\<close>

definition history_shape :: select_shape where
  "history_shape = \<lparr>with_top = True, with_offset = True, with_fetch = False\<rparr>"

definition select_history :: "string \<Rightarrow> nat \<Rightarrow> nat \<Rightarrow> store \<Rightarrow> message_row list" where
  "select_history cid limit offset db =
     take limit (drop offset
       (sort_key (\<lambda>r. - msg_created_at r)
          (filter (\<lambda>r. msg_conversation_id r = cid) (Messages db))))"

definition message_of_row :: "message_row \<Rightarrow> message" where
  "message_of_row r =
     \<lparr> messageId = message_id r, msg_conversationId = None, message_role = msg_role r,
       message_content = msg_content r, message_createdAt = msg_created_at r,
       message_metadata = msg_metadata r, tokenCount = token_count r \<rparr>"

text \<open>\<open>limit || this.maxConversationLength\<close>: \<open>null\<close> and 0 both give the default.\<close>

definition messageLimit :: "ConversationManager \<Rightarrow> nat option \<Rightarrow> nat" where
  "messageLimit cm limit =
     (case limit of Some n \<Rightarrow> if n \<noteq> 0 then n else maxConversationLength cm
               | None \<Rightarrow> maxConversationLength cm)"

definition getConversationHistory ::
  "ConversationManager \<Rightarrow> io \<Rightarrow> string \<Rightarrow> nat option \<Rightarrow> nat \<Rightarrow> store \<Rightarrow> error + message list" where
  "getConversationHistory cm i cid limit offset db =
     (if select_fails i history_shape then Inl PersistenceError
      else Inr (rev (map message_of_row (select_history cid (messageLimit cm limit) offset db))))"

definition buildConversationContext ::
  "ConversationManager \<Rightarrow> ai_config \<Rightarrow> io \<Rightarrow> string \<Rightarrow> bool \<Rightarrow> store \<Rightarrow> error + context_entry list" where
  "buildConversationContext cm cfg i cid includeSystemPrompt db =
     (case getConversationHistory cm i cid None 0 db of
        Inl e \<Rightarrow> Inl e
      | Inr messages \<Rightarrow>
          Inr ((if includeSystemPrompt
                then [\<lparr>role = ''system'', content = js_of (getSystemPrompt cfg PromptConversation None)\<rparr>]
                else [])
               @ map (\<lambda>msg. \<lparr>role = message_role msg, content = JsString (message_content msg)\<rparr>) messages))"

text \<open>\<open>if (metadata)\<close> on a JSON document.\<close>

fun json_truthy :: "json \<Rightarrow> bool" where
  "json_truthy JsonNull = False"
| "json_truthy (JsonString s) = (s \<noteq> [])"
| "json_truthy (JsonNumber n) = (n \<noteq> 0)"
| "json_truthy (JsonObject kvs) = True"

text \<open>
  \<open>UPDATE Conversations SET status = @status, updated_at = GETDATE() [, metadata = @metadata]
  WHERE conversation_id = @conversationId\<close>
\<close>

definition status_row_update :: "string \<Rightarrow> json option \<Rightarrow> int \<Rightarrow> conversation_row \<Rightarrow> conversation_row" where
  "status_row_update new_status meta now r =
     (case meta of
        Some m \<Rightarrow>
          if json_truthy m
          then r\<lparr>status := new_status, updated_at := now, metadata := m\<rparr>
          else r\<lparr>status := new_status, updated_at := now\<rparr>
      | None \<Rightarrow> r\<lparr>status := new_status, updated_at := now\<rparr>)"

definition update_status :: "string \<Rightarrow> string \<Rightarrow> json option \<Rightarrow> int \<Rightarrow> store \<Rightarrow> store" where
  "update_status cid new_status meta now db =
     db\<lparr>Conversations :=
          map (\<lambda>r. if conversation_id r = cid then status_row_update new_status meta now r else r)
            (Conversations db)\<rparr>"

text \<open>\<open>result.rowsAffected[0]\<close> of that update: the rows its \<open>WHERE\<close> selects.\<close>

definition update_status_rowsAffected :: "string \<Rightarrow> store \<Rightarrow> nat" where
  "update_status_rowsAffected cid db = length (filter (\<lambda>r. conversation_id r = cid) (Conversations db))"

definition updateConversationStatus ::
  "io \<Rightarrow> string \<Rightarrow> string \<Rightarrow> json option \<Rightarrow> store \<Rightarrow> (error + unit) \<times> store" where
  "updateConversationStatus i cid new_status meta db =
     (let (ok, db') = executeBatch [DML (update_status cid new_status meta (getdate i))] (fault i) db
      in if \<not> ok then (Inl PersistenceError, db')
         else if update_status_rowsAffected cid db = 0 then (Inl ConversationNotFound, db')
         else (Inr (), db'))"



text \<open>
  \<open>SELECT ... FROM Conversations WHERE user_id = @userId AND status != 'deleted'
  ORDER BY updated_at DESC OFFSET @offset ROWS FETCH NEXT @limit ROWS ONLY\<close>
\<close>

definition user_conversations_shape :: select_shape where
  "user_conversations_shape = \<lparr>with_top = False, with_offset = True, with_fetch = True\<rparr>"



text \<open>
  \<open>const cutoffDate = new Date(); cutoffDate.setDate(cutoffDate.getDate() - this.dataRetentionDays)\<close>.
  \<open>setDate\<close> works on the local calendar: it takes the local time of the instant
  (\<open>LocalTime(t) = t + LocalTZA(t, true)\<close>), keeps the time within the day and moves the
  day number back by the retention days, and converts the local result to an instant
  (\<open>UTC(t) = t - LocalTZA(t, false)\<close>). Where the zone's offset differs between the two
  dates, the cut-off is that much away from a whole number of days before now.
\<close>

definition msPerDay :: int where
  "msPerDay = 86400000"

definition cutoffDate :: "ConversationManager \<Rightarrow> io \<Rightarrow> int" where
  "cutoffDate cm i =
     (let local = date_now i + LocalTZA i (date_now i) True;
          moved = local - dataRetentionDays cm * msPerDay
      in moved - LocalTZA i moved False)"

text \<open>
  \<open>UPDATE Conversations SET status = 'deleted', updated_at = GETDATE()
  WHERE created_at < @cutoffDate AND status != 'deleted'\<close>
\<close>

definition cleanup_selects :: "int \<Rightarrow> conversation_row \<Rightarrow> bool" where
  "cleanup_selects cutoff r = (created_at r < cutoff \<and> status r \<noteq> ''deleted'')"

definition cleanup_update :: "int \<Rightarrow> int \<Rightarrow> store \<Rightarrow> store" where
  "cleanup_update cutoff now db =
     db\<lparr>Conversations :=
          map (\<lambda>r. if cleanup_selects cutoff r
                    then r\<lparr>status := ''deleted'', updated_at := now\<rparr>
                    else r) (Conversations db)\<rparr>"

definition cleanupOldConversations ::
  "ConversationManager \<Rightarrow> io \<Rightarrow> store \<Rightarrow> (error + nat) \<times> store" where
  "cleanupOldConversations cm i db =
     (let (ok, db') = executeBatch [DML (cleanup_update (cutoffDate cm i) (getdate i))] (fault i) db
      in if ok
         then (Inr (length (filter (cleanup_selects (cutoffDate cm i)) (Conversations db))), db')
         else (Inl PersistenceError, db'))"

section \<open>Chat orchestration (aiService.js)\<close>

record chat_metadata =
  meta_model :: string
  meta_responseTime :: int
  meta_tokenCount :: int
  meta_messageCount :: int

record chat_result =
  res_conversationId :: string
  res_response :: string
  res_metadata :: chat_metadata

text \<open>
  One \<open>io\<close> per gateway call \<open>processChatMessage\<close> makes, and the two readings of
  \<open>Date.now()\<close> around the generator. The request counter of the service is not a part
  of the store and is left out. A content that is \<open>undefined\<close> makes \<open>addMessage\<close>
  throw a \<open>TypeError\<close> on \<open>text.length\<close>, before it reaches the gateway.
\<close>

record chat_io =
  io_lookup :: io
  io_history :: io
  io_user :: io
  io_assistant :: io
  gen_start :: int
  gen_end :: int

text \<open>
  Step 1 of \<open>processChatMessage\<close>: with a truthy \<open>conversationId\<close> the conversation is
  loaded and its context built, otherwise a conversation is created and the context is
  the base system prompt alone.
\<close>

definition create_branch ::
  "ai_config \<Rightarrow> chat_io \<Rightarrow> string option \<Rightarrow> json \<Rightarrow> store
     \<Rightarrow> (error + conversation \<times> string \<times> context_entry list) \<times> store" where
  "create_branch cfg cio uid context db =
     (case createConversation (io_lookup cio) uid context db of
        (Inl e, db') \<Rightarrow> (Inl e, db')
      | (Inr conv, db') \<Rightarrow>
          (Inr (conv, conversationId conv,
                [\<lparr>role = ''system'', content = js_of (getSystemPrompt cfg PromptBase None)\<rparr>]), db'))"

definition load_branch ::
  "ConversationManager \<Rightarrow> ai_config \<Rightarrow> chat_io \<Rightarrow> string \<Rightarrow> store
     \<Rightarrow> (error + conversation \<times> string \<times> context_entry list) \<times> store" where
  "load_branch cm cfg cio cid db =
     (case getConversation (io_lookup cio) cid db of
        Inl e \<Rightarrow> (Inl e, db)
      | Inr None \<Rightarrow> (Inl ConversationNotFound, db)
      | Inr (Some conv) \<Rightarrow>
          (case buildConversationContext cm cfg (io_history cio) cid True db of
             Inl e \<Rightarrow> (Inl e, db)
           | Inr ctx \<Rightarrow> (Inr (conv, cid, ctx), db)))"

definition processChatMessage ::
  "ConversationManager \<Rightarrow> ai_config \<Rightarrow> chat_io \<Rightarrow> string \<Rightarrow> string option \<Rightarrow> string option \<Rightarrow> json
     \<Rightarrow> store \<Rightarrow> (error + chat_result) \<times> store" where
  "processChatMessage cm cfg cio msg conversationId_arg uid context db =
     (case (case conversationId_arg of
              Some cid \<Rightarrow> if cid \<noteq> [] then load_branch cm cfg cio cid db
                          else create_branch cfg cio uid context db
            | None \<Rightarrow> create_branch cfg cio uid context db) of
        (Inl e, db1) \<Rightarrow> (Inl e, db1)
      | (Inr (conv, cid, conversationContext), db1) \<Rightarrow>
          (case addMessage (io_user cio) cid ''user'' msg
                  (JsonObject [(''context'', context),
                               (''timestamp'', JsonNumber (of_int (date_now (io_user cio))))]) db1 of
             (Inl e, db2) \<Rightarrow> (Inl e, db2)
           | (Inr user_message, db2) \<Rightarrow>
               (case generateAIResponse cfg (gen_start cio) (gen_end cio)
                       (JsArray (conversationContext @ [\<lparr>role = ''user'', content = JsString msg\<rparr>]))
                       context of
                  Inl e \<Rightarrow> (Inl e, db2)
                | Inr aiResponse \<Rightarrow>
                    (case ai_content aiResponse of
                       None \<Rightarrow> (Inl TypeError, db2)
                     | Some response \<Rightarrow>
                    (case addMessage (io_assistant cio) cid ''assistant'' response
                            (JsonObject [(''model'', JsonString (model cfg)),
                                         (''temperature'', JsonNumber (temperature cfg)),
                                         (''responseTime'', JsonNumber (of_int (ai_responseTime aiResponse))),
                                         (''tokenCount'', JsonNumber (of_int (ai_tokenCount aiResponse)))]) db2 of
                       (Inl e, db3) \<Rightarrow> (Inl e, db3)
                     | (Inr assistant_message, db3) \<Rightarrow>
                         (Inr \<lparr> res_conversationId = cid,
                                res_response = response,
                                res_metadata =
                                  \<lparr> meta_model = model cfg,
                                    meta_responseTime = ai_responseTime aiResponse,
                                    meta_tokenCount = ai_tokenCount aiResponse,
                                    meta_messageCount = messageCount conv + 2 \<rparr> \<rparr>, db3))))))"

section \<open>Market analysis (brokerService.js)\<close>

text \<open>
  The columns of \<open>Properties\<close> the aggregate reads. Dates are day numbers, so that
  \<open>DATEDIFF(day, a, b)\<close> is \<open>b - a\<close>; prices and areas are rationals. The column types
  are not part of the sources: the aggregates below are the exact ones, and what
  JavaScript sees of them is the double the driver makes of each.
\<close>

record property_row =
  city :: string
  state :: string
  zip_code :: string
  property_type :: string
  listing_price :: rat
  listing_date :: int
  sold_date :: "int option"
  property_status :: string
  square_footage :: rat

text \<open>
  What the call takes from the engine: its \<open>LIKE\<close> (value first, pattern second), the
  day \<open>GETDATE()\<close> falls on and the day \<open>DATEADD(month, -6, GETDATE())\<close> falls on. And
  from the JavaScript side its arithmetic on doubles: the double the driver hands over
  for a column value, and IEEE 754 division and multiplication, each as a function on
  the rationals the doubles denote (they are used on finite values with a non-zero
  divisor only).
\<close>

record broker_io =
  sql_like :: "string \<Rightarrow> string \<Rightarrow> bool"
  today :: int
  six_months_ago :: int
  as_double :: "rat \<Rightarrow> rat"
  double_div :: "rat \<Rightarrow> rat \<Rightarrow> rat"
  double_mul :: "rat \<Rightarrow> rat \<Rightarrow> rat"
  analysis_time :: int
  broker_fault :: "nat option"

text \<open>SQL aggregates over the selected rows: \<open>NULL\<close> (here \<open>None\<close>) over no rows.\<close>

definition sql_avg :: "rat list \<Rightarrow> rat option" where
  "sql_avg xs = (if xs = [] then None else Some (sum_list xs / of_nat (length xs)))"

definition sql_min :: "rat list \<Rightarrow> rat option" where
  "sql_min xs = (case xs of [] \<Rightarrow> None | x # r \<Rightarrow> Some (fold min r x))"

definition sql_max :: "rat list \<Rightarrow> rat option" where
  "sql_max xs = (case xs of [] \<Rightarrow> None | x # r \<Rightarrow> Some (fold max r x))"

record market_row =
  total_listings :: int
  avg_price :: "rat option"
  min_price :: "rat option"
  max_price :: "rat option"
  avg_days_on_market :: "rat option"
  sold_count :: int
  active_count :: int
  avg_square_footage :: "rat option"

definition market_where :: "broker_io \<Rightarrow> string \<Rightarrow> string \<Rightarrow> property_row \<Rightarrow> bool" where
  "market_where bio location propertyType p =
     ((sql_like bio (city p) (''%'' @ location @ ''%'')
         \<or> sql_like bio (state p) (''%'' @ location @ ''%'')
         \<or> sql_like bio (zip_code p) (''%'' @ location @ ''%''))
      \<and> property_type p = propertyType
      \<and> listing_date p \<ge> six_months_ago bio)"

text \<open>
  \<open>DATEDIFF(day, listing_date, CASE WHEN status = 'sold' THEN sold_date ELSE GETDATE() END)\<close>:
  \<open>NULL\<close> for a sold row without a sale date, which \<open>AVG\<close> then skips.
\<close>

definition days_on_market :: "broker_io \<Rightarrow> property_row \<Rightarrow> rat option" where
  "days_on_market bio p =
     (if property_status p = ''sold''
      then map_option (\<lambda>d. of_int (d - listing_date p)) (sold_date p)
      else Some (of_int (today bio - listing_date p)))"

text \<open>
  The query is an aggregate without \<open>GROUP BY\<close>: its record set is one row, whatever
  the \<open>WHERE\<close> clause selects.
\<close>

definition market_recordset :: "broker_io \<Rightarrow> string \<Rightarrow> string \<Rightarrow> property_row list \<Rightarrow> market_row list" where
  "market_recordset bio location propertyType Properties =
     (let rows = filter (market_where bio location propertyType) Properties
      in [\<lparr> total_listings = int (length rows),
             avg_price = sql_avg (map listing_price rows),
             min_price = sql_min (map listing_price rows),
             max_price = sql_max (map listing_price rows),
             avg_days_on_market = sql_avg (List.map_filter (days_on_market bio) rows),
             sold_count = int (length (filter (\<lambda>p. property_status p = ''sold'') rows)),
             active_count = int (length (filter (\<lambda>p. property_status p = ''active'') rows)),
             avg_square_footage = sql_avg (map square_footage rows) \<rparr>])"

text \<open>
  A column value as a JavaScript number (\<open>null\<close> counts as 0 in \<open>Math.round\<close>, in
  \<open>/\<close> and in \<open>> 0\<close>), and \<open>Math.round\<close> of a double: the nearest integer, halves
  going up.
\<close>

definition to_number :: "broker_io \<Rightarrow> rat option \<Rightarrow> rat" where
  "to_number bio v = (case v of None \<Rightarrow> 0 | Some x \<Rightarrow> as_double bio x)"

definition Math_round :: "rat \<Rightarrow> int" where
  "Math_round x = \<lfloor>x + 1 / 2\<rfloor>"

record priceStatistics =
  average :: int
  minimum :: "rat option"
  maximum :: "rat option"
  pricePerSquareFoot :: "int option"

record marketActivity =
  averageDaysOnMarket :: int
  soldProperties :: int
  activeListings :: int
  absorptionRate :: int

record marketAnalysis =
  ma_location :: string
  ma_propertyType :: string
  totalListings :: int
  ma_priceStatistics :: priceStatistics
  ma_marketActivity :: marketActivity
  averageSquareFootage :: int
  analysisDate :: int
  dataRange :: string

definition getMarketAnalysis ::
  "broker_io \<Rightarrow> string \<Rightarrow> string \<Rightarrow> property_row list \<Rightarrow> error + marketAnalysis" where
  "getMarketAnalysis bio location propertyType Properties =
     (if query_fails (broker_fault bio) then Inl PersistenceError
      else case market_recordset bio location propertyType Properties of
             [] \<Rightarrow> Inl NoMarketDataFound
           | data # rest \<Rightarrow>
               Inr \<lparr> ma_location = location, ma_propertyType = propertyType,
                     totalListings = total_listings data,
                     ma_priceStatistics =
                       \<lparr> average = Math_round (to_number bio (avg_price data)),
                         minimum = map_option (as_double bio) (min_price data),
                         maximum = map_option (as_double bio) (max_price data),
                         pricePerSquareFoot =
                           (if to_number bio (avg_square_footage data) > 0
                            then Some (Math_round (double_div bio (to_number bio (avg_price data))
                                                     (to_number bio (avg_square_footage data))))
                            else None) \<rparr>,
                     ma_marketActivity =
                       \<lparr> averageDaysOnMarket = Math_round (to_number bio (avg_days_on_market data)),
                         soldProperties = sold_count data,
                         activeListings = active_count data,
                         absorptionRate =
                           (if total_listings data > 0
                            then Math_round
                                   (double_mul bio
                                      (double_div bio (of_int (sold_count data)) (of_int (total_listings data)))
                                      100)
                            else 0) \<rparr>,
                     averageSquareFootage = Math_round (to_number bio (avg_square_footage data)),
                     analysisDate = analysis_time bio,
                     dataRange = ''Last 6 months'' \<rparr>)"

section \<open>Sending several messages, one after the other\<close>

record add_call =
  call_io :: io
  call_role :: string
  call_content :: string
  call_metadata :: json

text \<open>
  A run of \<open>addMessage\<close> calls on one conversation, each on the store the one before
  left; \<open>None\<close> as soon as one of them throws.
\<close>

fun addMessages :: "string \<Rightarrow> add_call list \<Rightarrow> store \<Rightarrow> store option" where
  "addMessages cid [] db = Some db"
| "addMessages cid (c # cs) db =
     (case addMessage (call_io c) cid (call_role c) (call_content c) (call_metadata c) db of
        (Inl e, db') \<Rightarrow> None
      | (Inr m, db') \<Rightarrow> addMessages cid cs db')"

text \<open>The row an \<open>addMessage\<close> call inserts, and what a reader of the history sees of it.\<close>

definition row_of_call :: "string \<Rightarrow> add_call \<Rightarrow> message_row" where
  "row_of_call cid c =
     \<lparr> message_id = uuid (call_io c), msg_conversation_id = cid, msg_role = call_role c,
       msg_content = call_content c, msg_created_at = getdate (call_io c),
       msg_metadata = call_metadata c,
       token_count = ConversationManager_estimateTokenCount (call_content c) \<rparr>"

text \<open>
  The message count \<open>getConversation\<close> reports for a conversation, 0 for one that
  does not exist (yet) or is not visible.
\<close>

definition persistedMessageCount :: "io \<Rightarrow> string \<Rightarrow> store \<Rightarrow> int" where
  "persistedMessageCount j cid db =
     (case getConversation j cid db of Inr (Some c) \<Rightarrow> messageCount c | _ \<Rightarrow> 0)"

section \<open>Example data\<close>

definition empty_store :: store where
  "empty_store = \<lparr>Conversations = [], Messages = []\<rparr>"

definition io_at :: "(select_shape \<Rightarrow> bool) \<Rightarrow> string \<Rightarrow> int \<Rightarrow> io" where
  "io_at d u t = \<lparr>uuid = u, getdate = t, date_now = t, fault = None, dialect = d,
     LocalTZA = (\<lambda>t isUTC. 0)\<rparr>"

definition two_calls :: "add_call list" where
  "two_calls =
     [\<lparr>call_io = io_at tsql_accepts ''m-1'' 10, call_role = ''user'', call_content = ''I need a house'',
       call_metadata = JsonNull\<rparr>,
      \<lparr>call_io = io_at tsql_accepts ''m-2'' 20, call_role = ''assistant'', call_content = ''Hello'',
       call_metadata = JsonNull\<rparr>]"

definition chat_io_at :: "(select_shape \<Rightarrow> bool) \<Rightarrow> string \<Rightarrow> int \<Rightarrow> chat_io" where
  "chat_io_at d u t =
     \<lparr> io_lookup = io_at d u t, io_history = io_at d [] (t + 1),
       io_user = io_at d (u @ ''-user'') (t + 2), io_assistant = io_at d (u @ ''-assistant'') (t + 3),
       gen_start = t + 2, gen_end = t + 3 \<rparr>"

definition example_cfg :: ai_config where
  "example_cfg = \<lparr>model = ''gpt-4-turbo-preview'', temperature = 7 / 10, systemPromptVersion = ''v2.0''\<rparr>"

definition example_io :: io where
  "example_io = \<lparr>uuid = ''m-1'', getdate = 1000, date_now = 1000, fault = None,
     dialect = tsql_accepts, LocalTZA = (\<lambda>t isUTC. 0)\<rparr>"

definition deleted_store :: store where
  "deleted_store =
     \<lparr>Conversations =
        [\<lparr>conversation_id = ''c-1'', user_id = ''u1'', created_at = 0, updated_at = 0,
          status = ''deleted'', metadata = JsonObject [], message_count = 2\<rparr>],
      Messages = []\<rparr>"

text \<open>
  Eastern time around the clock change of 2 November 2025 (06:00 UTC, 02:00 local): four
  hours behind UTC before it, five after. The process clock reads 3 November 2025, 12:00
  UTC; the three conversations are 91 days, 90 days and 30 minutes, and 89 days old.
\<close>

definition eastern_2025 :: "int \<Rightarrow> bool \<Rightarrow> int" where
  "eastern_2025 t isUTC =
     (if isUTC then (if t < 1762063200000 then - 14400000 else - 18000000)
      else (if t < 1762048800000 then - 14400000 else - 18000000))"

definition november_3_noon :: io where
  "november_3_noon = \<lparr>uuid = [], getdate = 1762171200000, date_now = 1762171200000, fault = None,
     dialect = tsql_accepts, LocalTZA = eastern_2025\<rparr>"

definition retention_store :: store where
  "retention_store =
     \<lparr>Conversations =
        [\<lparr>conversation_id = ''old'', user_id = ''u1'', created_at = 1754308800000,
          updated_at = 1754308800000, status = ''active'', metadata = JsonObject [], message_count = 0\<rparr>,
         \<lparr>conversation_id = ''edge'', user_id = ''u1'', created_at = 1754393400000,
          updated_at = 1754393400000, status = ''active'', metadata = JsonObject [], message_count = 0\<rparr>,
         \<lparr>conversation_id = ''young'', user_id = ''u1'', created_at = 1754481600000,
          updated_at = 1754481600000, status = ''active'', metadata = JsonObject [], message_count = 0\<rparr>],
      Messages = []\<rparr>"

definition commercial_only :: "property_row list" where
  "commercial_only =
     [\<lparr>city = ''Austin'', state = ''TX'', zip_code = ''78701'', property_type = ''commercial'',
       listing_price = 500000, listing_date = 100, sold_date = None,
       property_status = ''active'', square_footage = 2000\<rparr>]"

text \<open>
  An engine on day 120 whose \<open>LIKE\<close> matches every value. Its arithmetic is the exact
  one: the example divides and multiplies nothing.
\<close>

definition engine_day_120 :: broker_io where
  "engine_day_120 = \<lparr>sql_like = (\<lambda>v p. True), today = 120, six_months_ago = 0,
     as_double = (\<lambda>x. x), double_div = (\<lambda>x y. x / y), double_mul = (\<lambda>x y. x * y),
     analysis_time = 0, broker_fault = None\<rparr>"

section \<open>The token estimate\<close>

text \<open>
  Claim C2. For every string the estimate is the ceiling of its length over 4, that is
  the least \<open>n\<close> with \<open>length s \<le> 4 * n\<close>; \<open>abcd\<close> gives 1 and \<open>abcde\<close> gives 2;
  the estimator of the conversation manager and the one of the AI service are the same
  function.
\<close>

theorem estimateTokenCount_ceiling:
  "ConversationManager_estimateTokenCount s = AIService_estimateTokenCount s
   \<and> ConversationManager_estimateTokenCount s = \<lceil>real (length s) / 4\<rceil>
   \<and> ConversationManager_estimateTokenCount s = (int (length s) + 3) div 4
   \<and> int (length s) \<le> 4 * ConversationManager_estimateTokenCount s
   \<and> 4 * (ConversationManager_estimateTokenCount s - 1) < int (length s)
   \<and> ConversationManager_estimateTokenCount ''abcd'' = 1
   \<and> ConversationManager_estimateTokenCount ''abcde'' = 2
   \<and> AIService_estimateTokenCount ''abcd'' = 1
   \<and> AIService_estimateTokenCount ''abcde'' = 2"
proof -
  have d: "\<lceil>real (length s) / 4\<rceil> = (int (length s) + 3) div 4" by linarith
  have b: "int (length s) \<le> 4 * ((int (length s) + 3) div 4)"
    "4 * ((int (length s) + 3) div 4 - 1) < int (length s)" by presburger+
  from d b show ?thesis
    by (simp add: ConversationManager_estimateTokenCount_def AIService_estimateTokenCount_def)
qed

theorem estimateTokenCount_ceiling_witness:
  "ConversationManager_estimateTokenCount ''abcdefghi'' = 3
   \<and> AIService_estimateTokenCount ''abcdefghi'' = 3"
  using estimateTokenCount_ceiling [of "''abcdefghi''"] by simp

section \<open>The response generator\<close>

lemma last_content_snoc [simp]: "last_content (xs @ [e]) = content e"
  by (simp add: last_content_def)

lemma js_or_string: "js_or (JsString m) (JsString []) = JsString m"
  by (cases m) (simp_all add: js_or_def)

lemma simulate_last_string:
  "simulateAIResponse (JsArray (xs @ [\<lparr>role = q, content = JsString t\<rparr>])) context
     = Inr (canned_paragraph (classify (toLowerCase t)))"
  by (simp add: simulateAIResponse_def js_or_string classify_def)

lemma generate_on_user_message:
  "generateAIResponse cfg t0 t1 (JsArray (ctx @ [\<lparr>role = ''user'', content = JsString msg\<rparr>])) context
     = Inr \<lparr> ai_content = Some (canned_paragraph (classify (toLowerCase msg))),
             ai_responseTime = t1 - t0,
             ai_tokenCount = AIService_estimateTokenCount (canned_paragraph (classify (toLowerCase msg))),
             ai_model = model cfg, ai_error = False \<rparr>"
  by (simp add: generateAIResponse_def simulate_last_string)

lemma house_is_property: "classify (toLowerCase ''I need a house'') = Property"
  by code_simp

lemma property_paragraph_says_property: "str_includes (canned_paragraph Property) ''property''"
  by code_simp

text \<open>
  Claim C4. The generator is a function of the lowercased last message alone: whatever
  the earlier context, it answers with the canned paragraph of the intent that message
  classifies to, the keyword pairs tried in the order property/house, price/market,
  schedule/viewing, agent/realtor, and the greeting when none occurs. For
  \<open>I need a house\<close> the answer contains the word \<open>property\<close>.
\<close>

theorem simulateAIResponse_classifier:
  "simulateAIResponse (JsArray (earlier @ [\<lparr>role = r, content = JsString m\<rparr>])) context
     = Inr (canned_paragraph (classify (toLowerCase m)))
   \<and> (\<exists>resp. simulateAIResponse
                (JsArray (earlier @ [\<lparr>role = ''user'', content = JsString ''I need a house''\<rparr>])) context
              = Inr resp
            \<and> str_includes resp ''property'')"
  using simulate_last_string [of earlier r m "context"]
    simulate_last_string [of earlier "''user''" "''I need a house''" "context"]
    house_is_property property_paragraph_says_property
  by simp

lemma market_is_pricing: "classify (toLowerCase ''What is the MARKET like?'') = Pricing"
  by code_simp

theorem simulateAIResponse_classifier_witness:
  "simulateAIResponse (JsArray [\<lparr>role = ''user'', content = JsString ''What is the MARKET like?''\<rparr>]) JsonNull
     = Inr (canned_paragraph Pricing)"
  using simulateAIResponse_classifier [of "[]" "''user''" "''What is the MARKET like?''" JsonNull]
    market_is_pricing
  by simp

lemma prompt_or_base_v2: "prompt_or_base prompts_v2_0 type = prompt_of prompts_v2_0 type"
  by (cases type) (simp_all add: prompt_or_base_def prompts_v2_0_def)

lemma v2_not_inherited: "''v2.0'' \<notin> set Object_prototype_members"
  by (simp add: Object_prototype_members_def)

lemma getSystemPrompt_cases:
  "getSystemPrompt cfg type None =
     (if systemPromptVersion cfg \<in> set Object_prototype_members
      then None else Some (prompt_of prompts_v2_0 type))"
proof (cases "systemPromptVersion cfg = ''v2.0''")
  case True
  then show ?thesis
    using v2_not_inherited
    by (simp add: getSystemPrompt_def SYSTEM_PROMPTS_def prompt_or_base_v2)
next
  case False
  then show ?thesis
    by (simp add: getSystemPrompt_def SYSTEM_PROMPTS_def prompt_or_base_v2)
qed

lemma getSystemPrompt_inherited_version:
  "getSystemPrompt (cfg\<lparr>systemPromptVersion := ''constructor''\<rparr>) PromptError None = None"
  by (simp add: getSystemPrompt_cases Object_prototype_members_def)

text \<open>
  Claim C9. \<open>generateAIResponse\<close> returns a result for every input and every
  configuration, and never an error. When the simulated generation fails, the result is
  flagged as an error and its content is what \<open>getSystemPrompt('error')\<close> returns: the
  fixed apology, for every configured prompt version that is not the name of a member
  plain objects inherit (for those the table lookup finds the inherited member and the
  content is \<open>undefined\<close>).
\<close>

theorem generateAIResponse_never_throws:
  "\<exists>res. generateAIResponse cfg t0 t1 ctx context = Inr res
       \<and> (\<forall>e. simulateAIResponse ctx context = Inl e \<longrightarrow>
             ai_content res = getSystemPrompt cfg PromptError None
             \<and> ai_tokenCount res = 100 \<and> ai_error res
             \<and> (systemPromptVersion cfg \<notin> set Object_prototype_members \<longrightarrow>
                   ai_content res = Some (error prompts_v2_0)))"
  by (cases "simulateAIResponse ctx context")
     (simp_all add: generateAIResponse_def getSystemPrompt_cases)

theorem generateAIResponse_never_throws_witness:
  "simulateAIResponse JsNullish JsonNull = Inl TypeError
   \<and> systemPromptVersion example_cfg \<notin> set Object_prototype_members
   \<and> (\<exists>res. generateAIResponse example_cfg 0 5 JsNullish JsonNull = Inr res
          \<and> ai_content res = Some (error prompts_v2_0) \<and> ai_error res)"
  using generateAIResponse_never_throws [of example_cfg 0 5 JsNullish JsonNull]
  by (auto simp: simulateAIResponse_def example_cfg_def Object_prototype_members_def)

section \<open>The gateway and the batch of addMessage\<close>

lemma executeBatch_single:
  "executeBatch [DML f] flt db = (if flt = Some 0 then (False, db) else (True, f db))"
  by (simp add: executeBatch_def)

lemma run_addMessage_batch:
  "executeBatch (addMessage_batch i cid rl t m) flt db =
     (if (\<exists>k<4. flt = Some k) then (False, db)
      else (True, increment_message_count cid (getdate i)
              (insert_message
                 \<lparr> message_id = uuid i, msg_conversation_id = cid, msg_role = rl, msg_content = t,
                   msg_created_at = getdate i, msg_metadata = m,
                   token_count = ConversationManager_estimateTokenCount t \<rparr> db)))"
proof (cases flt)
  case None
  then show ?thesis by (simp add: executeBatch_def addMessage_batch_def)
next
  case (Some k)
  consider "k = 0" | "k = 1" | "k = 2" | "k = 3" | "4 \<le> k" by linarith
  then show ?thesis
  proof cases
    case 5
    then have "\<not> (\<exists>j<4. flt = Some j)" using Some by auto
    moreover have "k \<noteq> 0" "k - 1 \<noteq> 0" "k - 1 - 1 \<noteq> 0" "k - 1 - 1 - 1 \<noteq> 0" using 5 by auto
    ultimately show ?thesis using Some
      by (simp add: executeBatch_def addMessage_batch_def)
  qed (simp_all add: Some executeBatch_def addMessage_batch_def)
qed

text \<open>
  The same two statements outside a transaction can be left half done: a connection lost
  after the insert keeps the message without the count.
\<close>

lemma without_transaction_partial:
  "executeBatch [DML (insert_message r), DML (increment_message_count cid now)] (Some 1) db
     = (False, insert_message r db)"
  by (simp add: executeBatch_def)

lemma addMessage_cases:
  "addMessage i cid rl t m db =
     (if (\<exists>k<4. fault i = Some k) then (Inl PersistenceError, db)
      else (Inr \<lparr> messageId = uuid i, msg_conversationId = Some cid, message_role = rl,
                  message_content = t, message_createdAt = date_now i, message_metadata = m,
                  tokenCount = ConversationManager_estimateTokenCount t \<rparr>,
            increment_message_count cid (getdate i)
              (insert_message
                 \<lparr> message_id = uuid i, msg_conversation_id = cid, msg_role = rl, msg_content = t,
                   msg_created_at = getdate i, msg_metadata = m,
                   token_count = ConversationManager_estimateTokenCount t \<rparr> db)))"
  by (simp add: addMessage_def run_addMessage_batch)

lemma Messages_after_add:
  "Messages (increment_message_count cid now (insert_message r db)) = Messages db @ [r]"
  by (simp add: increment_message_count_def insert_message_def)

lemma Conversations_after_add:
  "Conversations (increment_message_count cid now (insert_message r db)) =
     map (\<lambda>x. if conversation_id x = cid
               then x\<lparr>message_count := message_count x + 1, updated_at := now\<rparr> else x)
       (Conversations db)"
  by (simp add: increment_message_count_def insert_message_def)

lemma select_conversation_after_add:
  "select_conversation cid (increment_message_count cid now (insert_message r db)) =
     map (\<lambda>x. x\<lparr>message_count := message_count x + 1, updated_at := now\<rparr>) (select_conversation cid db)"
  by (simp add: select_conversation_def Conversations_after_add filter_map comp_def
      if_distrib [of conversation_id] if_distrib [of status] cong: if_cong)

lemma counts_after_add:
  "map message_count (select_conversation cid (increment_message_count cid now (insert_message r db)))
     = map (\<lambda>n. n + 1) (map message_count (select_conversation cid db))"
  by (simp add: select_conversation_after_add comp_def)

lemma addMessage_success:
  assumes "addMessage i cid rl t m db = (Inr msg, db')"
  shows "Messages db' = Messages db @ [row_of_call cid \<lparr>call_io = i, call_role = rl, call_content = t, call_metadata = m\<rparr>]"
    and "map message_count (select_conversation cid db') = map (\<lambda>n. n + 1) (map message_count (select_conversation cid db))"
proof -
  from assms have db': "db' = increment_message_count cid (getdate i)
              (insert_message
                 \<lparr> message_id = uuid i, msg_conversation_id = cid, msg_role = rl, msg_content = t,
                   msg_created_at = getdate i, msg_metadata = m,
                   token_count = ConversationManager_estimateTokenCount t \<rparr> db)"
    by (auto simp: addMessage_cases split: if_splits)
  show "Messages db' = Messages db @ [row_of_call cid \<lparr>call_io = i, call_role = rl, call_content = t, call_metadata = m\<rparr>]"
    unfolding db' by (simp add: Messages_after_add row_of_call_def)
  show "map message_count (select_conversation cid db') = map (\<lambda>n. n + 1) (map message_count (select_conversation cid db))"
    unfolding db' by (rule counts_after_add)
qed

lemma addMessages_effect:
  assumes "addMessages cid calls db = Some db'"
  shows "Messages db' = Messages db @ map (row_of_call cid) calls
       \<and> map message_count (select_conversation cid db')
           = map (\<lambda>n. n + int (length calls)) (map message_count (select_conversation cid db))"
  using assms
proof (induction calls arbitrary: db)
  case Nil
  then show ?case by simp
next
  case (Cons c cs)
  from Cons.prems obtain msg db1 where
    one: "addMessage (call_io c) cid (call_role c) (call_content c) (call_metadata c) db = (Inr msg, db1)"
    and rest: "addMessages cid cs db1 = Some db'"
    by (auto split: prod.splits sum.splits)
  have c: "\<lparr>call_io = call_io c, call_role = call_role c, call_content = call_content c,
            call_metadata = call_metadata c\<rparr> = c" by simp
  from addMessage_success [OF one] Cons.IH [OF rest] show ?case
    by (simp add: c comp_def add.assoc)
qed

section \<open>Message count and history\<close>

lemma io_at_simps [simp]:
  "uuid (io_at d u t) = u" "getdate (io_at d u t) = t" "date_now (io_at d u t) = t"
  "fault (io_at d u t) = None" "dialect (io_at d u t) = d"
  by (simp_all add: io_at_def)

lemma tsql_rejects_history [simp]: "\<not> tsql_accepts history_shape"
  by (simp add: tsql_accepts_def history_shape_def)

lemma tsql_accepts_user_conversations [simp]: "tsql_accepts user_conversations_shape"
  by (simp add: tsql_accepts_def user_conversations_shape_def)

lemma createConversation_success:
  assumes "createConversation i uid meta db = (Inr conv, db1)"
  shows "conversationId conv = uuid i" "messageCount conv = 0"
    "Messages db1 = Messages db"
    "Conversations db1 = Conversations db @
       [\<lparr> conversation_id = uuid i, user_id = userId_or_anonymous uid,
          created_at = getdate i, updated_at = getdate i, status = ''active'',
          metadata = meta, message_count = 0 \<rparr>]"
  using assms
  by (auto simp: createConversation_def executeBatch_single insert_conversation_def Let_def
      split: if_splits)

lemma select_conversation_created:
  assumes "\<forall>r \<in> set rows. conversation_id r \<noteq> cid" "Conversations db = rows @
       [\<lparr> conversation_id = cid, user_id = u,
          created_at = t, updated_at = t, status = ''active'',
          metadata = meta, message_count = 0 \<rparr>]"
  shows "map message_count (select_conversation cid db) = [0]"
proof -
  have "filter (\<lambda>r. conversation_id r = cid \<and> status r \<noteq> ''deleted'') rows = []"
    unfolding filter_empty_conv using assms(1) by blast
  then show ?thesis by (simp add: select_conversation_def assms(2))
qed

lemma getConversation_count:
  assumes "\<not> query_fails (fault j)" "map message_count (select_conversation cid db) = n # ns"
  shows "\<exists>c. getConversation j cid db = Inr (Some c) \<and> messageCount c = n"
proof -
  from assms(2) obtain r rs where "select_conversation cid db = r # rs" "message_count r = n"
    by (cases "select_conversation cid db") auto
  then show ?thesis using assms(1)
    by (simp add: getConversation_def conversation_of_row_def)
qed

lemma sorted_rev_of_negated:
  fixes f :: "'a \<Rightarrow> int"
  assumes "sorted (map (\<lambda>x. - f x) xs)"
  shows "sorted (rev (map f xs))"
  using assms by (simp add: rev_map sorted_wrt_map sorted_wrt_rev)

lemma insort_key_last:
  fixes g :: "'a \<Rightarrow> int"
  assumes "\<forall>y \<in> set ys. g y < g a"
  shows "insort_key g a ys = ys @ [a]"
  using assms by (induction ys) auto

lemma sort_newest_first_of_increasing:
  fixes f :: "'a \<Rightarrow> int"
  assumes "sorted_wrt (<) (map f xs)"
  shows "sort_key (\<lambda>x. - f x) xs = rev xs"
  using assms
proof (induction xs)
  case Nil
  then show ?case by simp
next
  case (Cons a xs)
  then have ih: "sort_key (\<lambda>x. - f x) xs = rev xs" and lt: "\<forall>y \<in> set xs. f a < f y"
    by simp_all
  have "insort_key (\<lambda>x. - f x) a (rev xs) = rev xs @ [a]"
    by (rule insort_key_last) (use lt in simp)
  then show ?case by (simp add: ih)
qed

lemma createdAt_of_rows:
  "map message_createdAt (map message_of_row rows) = map msg_created_at rows"
  by (simp add: message_of_row_def comp_def)

lemma history_sorted:
  assumes "getConversationHistory cm j cid limit_arg offset db = Inr h"
  shows "sorted (map message_createdAt h)"
proof -
  let ?S = "sort_key (\<lambda>r. - msg_created_at r) (filter (\<lambda>r. msg_conversation_id r = cid) (Messages db))"
  let ?T = "take (messageLimit cm limit_arg) (drop offset ?S)"
  from assms have h: "h = rev (map message_of_row ?T)"
    by (auto simp: getConversationHistory_def select_history_def split: if_splits)
  have "sorted (map (\<lambda>r. - msg_created_at r) ?S)" by (rule sorted_sort_key)
  then have "sorted (map (\<lambda>r. - msg_created_at r) ?T)"
    by (simp add: sorted_wrt_map)
  then have "sorted (rev (map msg_created_at ?T))" by (rule sorted_rev_of_negated)
  then show ?thesis
    unfolding h by (simp add: rev_map createdAt_of_rows [unfolded map_map])
qed

lemma history_of_rows:
  assumes rows: "filter (\<lambda>r. msg_conversation_id r = cid) (Messages db) = rows"
    and up: "\<not> select_fails j history_shape"
    and fits: "length rows \<le> messageLimit cm limit_arg"
  shows "getConversationHistory cm j cid limit_arg 0 db
       = Inr (rev (map message_of_row (sort_key (\<lambda>r. - msg_created_at r) rows)))"
  using up fits by (simp add: getConversationHistory_def select_history_def rows)

lemma history_empty:
  assumes "\<forall>m \<in> set (Messages db). msg_conversation_id m \<noteq> cid" "\<not> select_fails j history_shape"
  shows "getConversationHistory cm j cid limit_arg offset db = Inr []"
proof -
  have "filter (\<lambda>r. msg_conversation_id r = cid) (Messages db) = []"
    unfolding filter_empty_conv using assms(1) by blast
  then show ?thesis using assms(2)
    by (simp add: getConversationHistory_def select_history_def)
qed

lemma rows_of_calls:
  assumes "\<forall>m \<in> set old. msg_conversation_id m \<noteq> cid"
  shows "filter (\<lambda>r. msg_conversation_id r = cid) (old @ map (row_of_call cid) calls)
       = map (row_of_call cid) calls"
proof -
  have "filter (\<lambda>r. msg_conversation_id r = cid) old = []"
    unfolding filter_empty_conv using assms by blast
  moreover have "filter (\<lambda>r. msg_conversation_id r = cid) (map (row_of_call cid) calls) = map (row_of_call cid) calls"
    by (simp add: filter_map comp_def row_of_call_def)
  ultimately show ?thesis by simp
qed

lemma messageLimit_fits:
  assumes "n \<le> limit"
  shows "n \<le> messageLimit cm (Some limit)"
  using assms by (simp add: messageLimit_def)

text \<open>
  What the manager does on an engine that accepts the history statement. Take a
  conversation created by \<open>createConversation\<close> under an identifier no row of the
  store carries, and \<open>N\<close> \<open>addMessage\<close> calls on it that all succeed, with no other
  write. Then \<open>getConversation\<close> reports \<open>messageCount = N\<close>, and
  \<open>getConversationHistory\<close> with a limit of at least \<open>N\<close> returns exactly the \<open>N\<close>
  messages inserted, oldest first by creation time (in the order of the calls when the
  database clock moved between them). And on any engine every \<open>addMessage\<close> call,
  wherever the connection is lost in its batch, either throws and leaves the store as it
  was, or returns with both the message inserted and the count incremented.
\<close>

theorem addMessages_count_history_atomic:
  assumes created: "createConversation i0 uid meta db0 = (Inr conv, db1)"
    and fresh: "\<forall>r \<in> set (Conversations db0). conversation_id r \<noteq> uuid i0"
               "\<forall>m \<in> set (Messages db0). msg_conversation_id m \<noteq> uuid i0"
    and added: "addMessages (conversationId conv) calls db1 = Some db2"
    and up: "\<not> query_fails (fault j)"
    and accepted: "dialect j history_shape"
    and limit: "length calls \<le> limit"
  shows "(\<exists>c. getConversation j (conversationId conv) db2 = Inr (Some c)
             \<and> messageCount c = int (length calls))
       \<and> (\<exists>h. getConversationHistory cm j (conversationId conv) (Some limit) 0 db2 = Inr h
             \<and> length h = length calls
             \<and> mset h = mset (map (\<lambda>c. message_of_row (row_of_call (conversationId conv) c)) calls)
             \<and> sorted (map message_createdAt h)
             \<and> (sorted_wrt (<) (map (\<lambda>c. getdate (call_io c)) calls) \<longrightarrow>
                  h = map (\<lambda>c. message_of_row (row_of_call (conversationId conv) c)) calls))
       \<and> ((fst (addMessage i cid rl t m db) = Inl PersistenceError \<and> snd (addMessage i cid rl t m db) = db)
          \<or> ((\<exists>msg. fst (addMessage i cid rl t m db) = Inr msg)
              \<and> Messages (snd (addMessage i cid rl t m db)) = Messages db @
                   [row_of_call cid \<lparr>call_io = i, call_role = rl, call_content = t, call_metadata = m\<rparr>]
              \<and> Conversations (snd (addMessage i cid rl t m db)) =
                   map (\<lambda>x. if conversation_id x = cid
                             then x\<lparr>message_count := message_count x + 1, updated_at := getdate i\<rparr>
                             else x) (Conversations db)))"
proof -
  let ?cid = "conversationId conv"
  let ?rows = "map (row_of_call ?cid) calls"
  note c = createConversation_success [OF created]
  have cid: "?cid = uuid i0" by (rule c(1))
  have count0: "map message_count (select_conversation ?cid db1) = [0]"
    using select_conversation_created [of "Conversations db0" ?cid db1] fresh(1) c(4) cid by simp
  note eff = addMessages_effect [OF added]
  have count: "map message_count (select_conversation ?cid db2) = [int (length calls)]"
    using eff count0 by simp
  have part1: "\<exists>c. getConversation j ?cid db2 = Inr (Some c) \<and> messageCount c = int (length calls)"
    using getConversation_count [OF up count] .
  have msgs: "Messages db2 = Messages db0 @ ?rows"
    using eff c(3) by simp
  have rows: "filter (\<lambda>r. msg_conversation_id r = ?cid) (Messages db2) = ?rows"
    unfolding msgs using rows_of_calls [of "Messages db0" ?cid calls] fresh(2) cid by simp
  let ?h = "rev (map message_of_row (sort_key (\<lambda>r. - msg_created_at r) ?rows))"
  have hist: "getConversationHistory cm j ?cid (Some limit) 0 db2 = Inr ?h"
    by (rule history_of_rows [OF rows]) (use limit up accepted in \<open>simp_all add: messageLimit_fits select_fails_def\<close>)
  have len: "length ?h = length calls" by simp
  have ms: "mset ?h = mset (map (\<lambda>c. message_of_row (row_of_call ?cid c)) calls)"
    by (simp add: multiset.map_comp comp_def)
  have srt: "sorted (map message_createdAt ?h)"
    by (rule history_sorted [OF hist])
  have ord: "?h = map (\<lambda>c. message_of_row (row_of_call ?cid c)) calls"
    if "sorted_wrt (<) (map (\<lambda>c. getdate (call_io c)) calls)"
  proof -
    have eq: "map msg_created_at ?rows = map (\<lambda>c. getdate (call_io c)) calls"
      by (simp add: row_of_call_def comp_def)
    have "sorted_wrt (<) (map msg_created_at ?rows)"
      unfolding eq by (rule that)
    then have "sort_key (\<lambda>r. - msg_created_at r) ?rows = rev ?rows"
      by (rule sort_newest_first_of_increasing)
    then show ?thesis by (simp add: rev_map comp_def)
  qed
  have part2: "\<exists>h. getConversationHistory cm j ?cid (Some limit) 0 db2 = Inr h
             \<and> length h = length calls
             \<and> mset h = mset (map (\<lambda>c. message_of_row (row_of_call ?cid c)) calls)
             \<and> sorted (map message_createdAt h)
             \<and> (sorted_wrt (<) (map (\<lambda>c. getdate (call_io c)) calls) \<longrightarrow>
                  h = map (\<lambda>c. message_of_row (row_of_call ?cid c)) calls)"
    using hist len ms srt ord by blast
  have part3: "(fst (addMessage i cid rl t m db) = Inl PersistenceError \<and> snd (addMessage i cid rl t m db) = db)
          \<or> ((\<exists>msg. fst (addMessage i cid rl t m db) = Inr msg)
              \<and> Messages (snd (addMessage i cid rl t m db)) = Messages db @
                   [row_of_call cid \<lparr>call_io = i, call_role = rl, call_content = t, call_metadata = m\<rparr>]
              \<and> Conversations (snd (addMessage i cid rl t m db)) =
                   map (\<lambda>x. if conversation_id x = cid
                             then x\<lparr>message_count := message_count x + 1, updated_at := getdate i\<rparr>
                             else x) (Conversations db))"
    by (cases "\<exists>k<4. fault i = Some k")
       (simp_all add: addMessage_cases Messages_after_add Conversations_after_add row_of_call_def)
  from part1 part2 part3 show ?thesis by (intro conjI)
qed

theorem addMessages_count_history_atomic_example:
  "(\<exists>conv db1 db2.
      createConversation (io_at any_shape ''c-9'' 5) (Some ''u1'') JsonNull empty_store = (Inr conv, db1)
    \<and> conversationId conv = ''c-9''
    \<and> addMessages ''c-9'' two_calls db1 = Some db2
    \<and> (\<exists>c. getConversation (io_at any_shape [] 30) ''c-9'' db2 = Inr (Some c) \<and> messageCount c = 2)
    \<and> (\<exists>h. getConversationHistory (new_ConversationManager None None) (io_at any_shape [] 30) ''c-9'' (Some 5) 0 db2 = Inr h
           \<and> map message_content h = [''I need a house'', ''Hello'']))"
proof -
  obtain conv db1 where created: "createConversation (io_at any_shape ''c-9'' 5) (Some ''u1'') JsonNull empty_store = (Inr conv, db1)"
    by (simp add: createConversation_def executeBatch_single Let_def)
  note c = createConversation_success [OF created]
  have cid: "conversationId conv = ''c-9''" using c(1) by simp
  have "\<exists>db2. addMessages ''c-9'' two_calls db1 = Some db2"
    by (simp add: two_calls_def addMessage_cases)
  then obtain db2 where added: "addMessages ''c-9'' two_calls db1 = Some db2" ..
  have up: "\<not> query_fails (fault (io_at any_shape [] 30))" by (simp add: query_fails_def)
  have inc: "sorted_wrt (<) (map (\<lambda>c. getdate (call_io c)) two_calls)"
    by (simp add: two_calls_def)
  from addMessages_count_history_atomic
         [of "io_at any_shape ''c-9'' 5" "Some ''u1''" JsonNull empty_store conv db1 two_calls db2
             "io_at any_shape [] 30" 5 "new_ConversationManager None None", OF created _ _ _ up]
       added cid inc
  have "(\<exists>c. getConversation (io_at any_shape [] 30) ''c-9'' db2 = Inr (Some c) \<and> messageCount c = int (length two_calls))
      \<and> (\<exists>h. getConversationHistory (new_ConversationManager None None) (io_at any_shape [] 30) ''c-9'' (Some 5) 0 db2 = Inr h
            \<and> h = map (\<lambda>c. message_of_row (row_of_call ''c-9'' c)) two_calls)"
    by (simp add: empty_store_def two_calls_def any_shape_def)
  then have g: "(\<exists>c. getConversation (io_at any_shape [] 30) ''c-9'' db2 = Inr (Some c) \<and> messageCount c = 2)
      \<and> (\<exists>h. getConversationHistory (new_ConversationManager None None) (io_at any_shape [] 30) ''c-9'' (Some 5) 0 db2 = Inr h
           \<and> map message_content h = [''I need a house'', ''Hello''])"
    by (simp add: two_calls_def message_of_row_def row_of_call_def)
  show ?thesis
    apply (rule exI [of _ conv], rule exI [of _ db1], rule exI [of _ db2])
    by (intro conjI created cid added conjunct1 [OF g] conjunct2 [OF g])
qed

lemma getConversationHistory_rejected:
  assumes "dialect i = tsql_accepts"
  shows "getConversationHistory cm i cid limit_arg offset db = Inl PersistenceError"
  using assms by (simp add: getConversationHistory_def select_fails_def)

text \<open>
  Claim C1 asks that after \<open>N\<close> successful \<open>addMessage\<close> calls \<open>messageCount\<close> is
  \<open>N\<close> and \<open>getConversationHistory\<close> with a limit of at least \<open>N\<close> returns the \<open>N\<close>
  messages. On SQL Server the count is as claimed, but the history statement combines
  \<open>TOP\<close> with \<open>OFFSET\<close> and is rejected: after the \<open>N\<close> calls
  \<open>getConversationHistory\<close> throws, whatever the limit and the offset.
\<close>

theorem history_after_addMessages_fails_on_sql_server:
  assumes created: "createConversation i0 uid meta db0 = (Inr conv, db1)"
    and fresh: "\<forall>r \<in> set (Conversations db0). conversation_id r \<noteq> uuid i0"
    and added: "addMessages (conversationId conv) calls db1 = Some db2"
    and up: "\<not> query_fails (fault j)"
    and engine: "dialect j = tsql_accepts"
  shows "(\<exists>c. getConversation j (conversationId conv) db2 = Inr (Some c)
             \<and> messageCount c = int (length calls))
       \<and> getConversationHistory cm j (conversationId conv) limit_arg offset db2 = Inl PersistenceError"
proof -
  let ?cid = "conversationId conv"
  note c = createConversation_success [OF created]
  have count0: "map message_count (select_conversation ?cid db1) = [0]"
    using select_conversation_created [of "Conversations db0" ?cid db1] fresh c(4) c(1) by simp
  have count: "map message_count (select_conversation ?cid db2) = [int (length calls)]"
    using addMessages_effect [OF added] count0 by simp
  from getConversation_count [OF up count] getConversationHistory_rejected [OF engine]
  show ?thesis by simp
qed

theorem history_after_addMessages_fails_on_sql_server_witness:
  "\<exists>conv db1 db2.
      createConversation (io_at tsql_accepts ''c-9'' 5) (Some ''u1'') JsonNull empty_store = (Inr conv, db1)
    \<and> conversationId conv = ''c-9''
    \<and> addMessages ''c-9'' two_calls db1 = Some db2
    \<and> (\<exists>c. getConversation (io_at tsql_accepts [] 30) ''c-9'' db2 = Inr (Some c) \<and> messageCount c = 2)
    \<and> getConversationHistory (new_ConversationManager None None) (io_at tsql_accepts [] 30)
          ''c-9'' (Some 5) 0 db2 = Inl PersistenceError"
proof -
  obtain conv db1 where created:
    "createConversation (io_at tsql_accepts ''c-9'' 5) (Some ''u1'') JsonNull empty_store = (Inr conv, db1)"
    by (simp add: createConversation_def executeBatch_single Let_def)
  note c = createConversation_success [OF created]
  have cid: "conversationId conv = ''c-9''" using c(1) by simp
  have "\<exists>db2. addMessages ''c-9'' two_calls db1 = Some db2"
    by (simp add: two_calls_def addMessage_cases)
  then obtain db2 where added: "addMessages ''c-9'' two_calls db1 = Some db2" ..
  have up: "\<not> query_fails (fault (io_at tsql_accepts [] 30))" by (simp add: query_fails_def)
  from history_after_addMessages_fails_on_sql_server
         [of "io_at tsql_accepts ''c-9'' 5" "Some ''u1''" JsonNull empty_store conv db1 two_calls db2
             "io_at tsql_accepts [] 30" "new_ConversationManager None None" "Some 5" 0, OF created _ _ up]
       added cid
  have g: "(\<exists>c. getConversation (io_at tsql_accepts [] 30) ''c-9'' db2 = Inr (Some c) \<and> messageCount c = 2)
      \<and> getConversationHistory (new_ConversationManager None None) (io_at tsql_accepts [] 30)
          ''c-9'' (Some 5) 0 db2 = Inl PersistenceError"
    by (simp add: empty_store_def two_calls_def)
  show ?thesis
    apply (rule exI [of _ conv], rule exI [of _ db1], rule exI [of _ db2])
    by (intro conjI created cid added conjunct1 [OF g] conjunct2 [OF g])
qed

section \<open>The conversation context\<close>

lemma history_total:
  assumes "\<not> select_fails i history_shape"
  shows "\<exists>h. getConversationHistory cm i cid limit_arg offset db = Inr h"
  using assms by (simp add: getConversationHistory_def)

text \<open>
  When the history query runs (the gateway does not fail and the engine accepts the
  statement), \<open>buildConversationContext\<close> with \<open>includeSystemPrompt = true\<close> returns
  the system turn followed by the retrieved history, one entry per message in the order
  \<open>getConversationHistory\<close> gives them (oldest first); without the flag the history
  alone; and for a conversation with no messages exactly one entry, the system prompt.
\<close>

theorem buildConversationContext_system_then_history:
  assumes up: "\<not> select_fails i history_shape"
  shows "\<exists>history. getConversationHistory cm i cid None 0 db = Inr history
      \<and> sorted (map message_createdAt history)
      \<and> buildConversationContext cm cfg i cid True db =
          Inr (\<lparr>role = ''system'', content = js_of (getSystemPrompt cfg PromptConversation None)\<rparr>
               # map (\<lambda>msg. \<lparr>role = message_role msg, content = JsString (message_content msg)\<rparr>) history)
      \<and> buildConversationContext cm cfg i cid False db =
          Inr (map (\<lambda>msg. \<lparr>role = message_role msg, content = JsString (message_content msg)\<rparr>) history)
      \<and> ((\<forall>m \<in> set (Messages db). msg_conversation_id m \<noteq> cid) \<longrightarrow>
            buildConversationContext cm cfg i cid True db =
              Inr [\<lparr>role = ''system'', content = js_of (getSystemPrompt cfg PromptConversation None)\<rparr>])"
proof -
  from history_total [OF up] obtain h where h: "getConversationHistory cm i cid None 0 db = Inr h" ..
  have s: "sorted (map message_createdAt h)" by (rule history_sorted [OF h])
  have t: "buildConversationContext cm cfg i cid True db =
          Inr (\<lparr>role = ''system'', content = js_of (getSystemPrompt cfg PromptConversation None)\<rparr>
               # map (\<lambda>msg. \<lparr>role = message_role msg, content = JsString (message_content msg)\<rparr>) h)"
    by (simp add: buildConversationContext_def h)
  have f: "buildConversationContext cm cfg i cid False db =
          Inr (map (\<lambda>msg. \<lparr>role = message_role msg, content = JsString (message_content msg)\<rparr>) h)"
    by (simp add: buildConversationContext_def h)
  have e: "buildConversationContext cm cfg i cid True db =
              Inr [\<lparr>role = ''system'', content = js_of (getSystemPrompt cfg PromptConversation None)\<rparr>]"
    if "\<forall>m \<in> set (Messages db). msg_conversation_id m \<noteq> cid"
  proof -
    from history_empty [OF that up, of cm None 0] h have "h = []" by simp
    with t show ?thesis by simp
  qed
  from h s t f e show ?thesis by blast
qed

theorem buildConversationContext_system_then_history_example:
  "\<exists>conv db1. createConversation (io_at any_shape ''c-9'' 5) (Some ''u1'') JsonNull empty_store = (Inr conv, db1)
     \<and> conversationId conv = ''c-9''
     \<and> buildConversationContext (new_ConversationManager None None) example_cfg (io_at any_shape [] 30) ''c-9'' True db1
         = Inr [\<lparr>role = ''system'', content = js_of (getSystemPrompt example_cfg PromptConversation None)\<rparr>]"
proof -
  obtain conv db1 where created: "createConversation (io_at any_shape ''c-9'' 5) (Some ''u1'') JsonNull empty_store = (Inr conv, db1)"
    by (simp add: createConversation_def executeBatch_single Let_def)
  note c = createConversation_success [OF created]
  have cid: "conversationId conv = ''c-9''" using c(1) by simp
  have none: "\<forall>m \<in> set (Messages db1). msg_conversation_id m \<noteq> ''c-9''"
    using c(3) by (simp add: empty_store_def)
  have up: "\<not> select_fails (io_at any_shape [] 30) history_shape"
    by (simp add: select_fails_def query_fails_def any_shape_def)
  from buildConversationContext_system_then_history
         [OF up, of "new_ConversationManager None None" "''c-9''" db1 example_cfg] none
  have b: "buildConversationContext (new_ConversationManager None None) example_cfg (io_at any_shape [] 30) ''c-9'' True db1
         = Inr [\<lparr>role = ''system'', content = js_of (getSystemPrompt example_cfg PromptConversation None)\<rparr>]"
    by blast
  show ?thesis
    apply (rule exI [of _ conv], rule exI [of _ db1])
    by (intro conjI created cid b)
qed

text \<open>
  Claim C3 asks that \<open>buildConversationContext\<close> returns the system turn followed by
  the history, and exactly the system prompt on a fresh conversation. It retrieves the
  history through \<open>getConversationHistory\<close>, whose statement SQL Server rejects: on
  that engine the method throws for every conversation, with or without the system
  prompt.
\<close>

theorem buildConversationContext_fails_on_sql_server:
  assumes "dialect i = tsql_accepts"
  shows "buildConversationContext cm cfg i cid includeSystemPrompt db = Inl PersistenceError"
  using assms by (simp add: buildConversationContext_def getConversationHistory_rejected)

theorem buildConversationContext_fails_on_sql_server_witness:
  "\<exists>conv db1. createConversation (io_at tsql_accepts ''c-9'' 5) (Some ''u1'') JsonNull empty_store = (Inr conv, db1)
     \<and> conversationId conv = ''c-9''
     \<and> buildConversationContext (new_ConversationManager None None) example_cfg
          (io_at tsql_accepts [] 30) ''c-9'' True db1 = Inl PersistenceError"
proof -
  obtain conv db1 where created:
    "createConversation (io_at tsql_accepts ''c-9'' 5) (Some ''u1'') JsonNull empty_store = (Inr conv, db1)"
    by (simp add: createConversation_def executeBatch_single Let_def)
  note c = createConversation_success [OF created]
  have cid: "conversationId conv = ''c-9''" using c(1) by simp
  have b: "buildConversationContext (new_ConversationManager None None) example_cfg
          (io_at tsql_accepts [] 30) ''c-9'' True db1 = Inl PersistenceError"
    by (rule buildConversationContext_fails_on_sql_server) simp
  show ?thesis
    apply (rule exI [of _ conv], rule exI [of _ db1])
    by (intro conjI created cid b)
qed

section \<open>Processing a chat message\<close>

lemma persisted_of_counts:
  assumes "\<not> query_fails (fault j)"
  shows "persistedMessageCount j cid db =
           (case map message_count (select_conversation cid db) of [] \<Rightarrow> 0 | n # ns \<Rightarrow> n)"
  using assms
  by (cases "select_conversation cid db")
     (simp_all add: persistedMessageCount_def getConversation_def conversation_of_row_def)

lemma load_branch_success:
  assumes "load_branch cm cfg cio cid db = (Inr (conv, cid', ctx), db1)"
  shows "db1 = db" "cid' = cid"
    "\<exists>r rs. select_conversation cid db = r # rs \<and> messageCount conv = message_count r"
proof -
  from assms have ok: "\<not> query_fails (fault (io_lookup cio))"
    by (auto simp: load_branch_def getConversation_def split: if_splits)
  from assms ok obtain c where g: "getConversation (io_lookup cio) cid db = Inr (Some c)"
    by (cases "getConversation (io_lookup cio) cid db")
       (auto simp: load_branch_def split: option.splits sum.splits)
  from assms g have "conv = c \<and> cid' = cid \<and> db1 = db"
    by (auto simp: load_branch_def split: sum.splits)
  then show "db1 = db" "cid' = cid" by simp_all
  from g ok \<open>conv = c \<and> cid' = cid \<and> db1 = db\<close>
  show "\<exists>r rs. select_conversation cid db = r # rs \<and> messageCount conv = message_count r"
    by (cases "select_conversation cid db")
       (auto simp: getConversation_def conversation_of_row_def)
qed

lemma create_branch_success:
  assumes "create_branch cfg cio uid context db = (Inr (conv, cid', ctx), db1)"
  shows "cid' = uuid (io_lookup cio)" "messageCount conv = 0"
    "Conversations db1 = Conversations db @
       [\<lparr> conversation_id = uuid (io_lookup cio), user_id = userId_or_anonymous uid,
          created_at = getdate (io_lookup cio), updated_at = getdate (io_lookup cio), status = ''active'',
          metadata = context, message_count = 0 \<rparr>]"
proof -
  from assms obtain c where cr: "createConversation (io_lookup cio) uid context db = (Inr c, db1)"
    and eq: "conv = c" "cid' = conversationId c"
    by (auto simp: create_branch_def split: prod.splits sum.splits)
  note s = createConversation_success [OF cr]
  show "cid' = uuid (io_lookup cio)" using eq s(1) by simp
  show "messageCount conv = 0" using eq s(2) by simp
  show "Conversations db1 = Conversations db @
       [\<lparr> conversation_id = uuid (io_lookup cio), user_id = userId_or_anonymous uid,
          created_at = getdate (io_lookup cio), updated_at = getdate (io_lookup cio), status = ''active'',
          metadata = context, message_count = 0 \<rparr>]" by (rule s(4))
qed

lemma processChatMessage_after_step1:
  assumes run: "processChatMessage cm cfg cio msg arg uid context db = (Inr r, db')"
    and step1: "(case arg of
              Some cid \<Rightarrow> if cid \<noteq> [] then load_branch cm cfg cio cid db
                          else create_branch cfg cio uid context db
            | None \<Rightarrow> create_branch cfg cio uid context db) = (Inr (conv, cid, ctx), db1)"
  shows "\<exists>m1 db2 m2 meta1 meta2.
           addMessage (io_user cio) cid ''user'' msg meta1 db1 = (Inr m1, db2)
         \<and> addMessage (io_assistant cio) cid ''assistant'' (canned_paragraph (classify (toLowerCase msg))) meta2 db2 = (Inr m2, db')
         \<and> res_conversationId r = cid
         \<and> res_response r = canned_paragraph (classify (toLowerCase msg))
         \<and> meta_messageCount (res_metadata r) = messageCount conv + 2"
proof -
  let ?meta1 = "JsonObject [(''context'', context),
                               (''timestamp'', JsonNumber (of_int (date_now (io_user cio))))]"
  let ?ai = "\<lparr> ai_content = Some (canned_paragraph (classify (toLowerCase msg))),
             ai_responseTime = gen_end cio - gen_start cio,
             ai_tokenCount = AIService_estimateTokenCount (canned_paragraph (classify (toLowerCase msg))),
             ai_model = model cfg, ai_error = False \<rparr>"
  let ?meta2 = "JsonObject [(''model'', JsonString (model cfg)),
                                         (''temperature'', JsonNumber (temperature cfg)),
                                         (''responseTime'', JsonNumber (of_int (ai_responseTime ?ai))),
                                         (''tokenCount'', JsonNumber (of_int (ai_tokenCount ?ai)))]"
  obtain a1 db2 where u: "addMessage (io_user cio) cid ''user'' msg ?meta1 db1 = (a1, db2)"
    by (cases "addMessage (io_user cio) cid ''user'' msg ?meta1 db1")
  obtain m1 where a1: "a1 = Inr m1"
    using run u by (cases a1) (simp_all add: processChatMessage_def step1)
  obtain a2 db3 where v: "addMessage (io_assistant cio) cid ''assistant'' (canned_paragraph (classify (toLowerCase msg))) ?meta2 db2 = (a2, db3)"
    by (cases "addMessage (io_assistant cio) cid ''assistant'' (canned_paragraph (classify (toLowerCase msg))) ?meta2 db2")
  obtain m2 where a2: "a2 = Inr m2"
    using run u v a1 by (cases a2) (simp_all add: processChatMessage_def step1 generate_on_user_message)
  have res: "r = \<lparr> res_conversationId = cid,
                                res_response = canned_paragraph (classify (toLowerCase msg)),
                                res_metadata =
                                  \<lparr> meta_model = model cfg,
                                    meta_responseTime = ai_responseTime ?ai,
                                    meta_tokenCount = ai_tokenCount ?ai,
                                    meta_messageCount = messageCount conv + 2 \<rparr> \<rparr>" and db': "db' = db3"
    using run u v a1 a2 by (simp_all add: processChatMessage_def step1 generate_on_user_message)
  have "addMessage (io_user cio) cid ''user'' msg ?meta1 db1 = (Inr m1, db2)"
    using u a1 by simp
  moreover have "addMessage (io_assistant cio) cid ''assistant'' (canned_paragraph (classify (toLowerCase msg))) ?meta2 db2 = (Inr m2, db')"
    using v a2 db' by simp
  moreover have "res_conversationId r = cid" "res_response r = canned_paragraph (classify (toLowerCase msg))"
    "meta_messageCount (res_metadata r) = messageCount conv + 2"
    unfolding res by simp_all
  ultimately show ?thesis by blast
qed

lemma step1_total:
  assumes run: "processChatMessage cm cfg cio msg arg uid context db = (Inr r, db')"
  shows "\<exists>conv cid ctx db1. (case arg of
              Some cid \<Rightarrow> if cid \<noteq> [] then load_branch cm cfg cio cid db
                          else create_branch cfg cio uid context db
            | None \<Rightarrow> create_branch cfg cio uid context db) = (Inr (conv, cid, ctx), db1)"
proof -
  let ?s = "(case arg of
              Some cid \<Rightarrow> if cid \<noteq> [] then load_branch cm cfg cio cid db
                          else create_branch cfg cio uid context db
            | None \<Rightarrow> create_branch cfg cio uid context db)"
  obtain a db1 where s: "?s = (a, db1)" by (cases ?s)
  from run s obtain t where "a = Inr t"
    by (cases a) (simp_all add: processChatMessage_def)
  with s show ?thesis by (cases t) auto
qed

lemma processChatMessage_step:
  assumes run: "processChatMessage cm cfg cio msg arg uid context db = (Inr r, db')"
    and fresh: "arg = None \<or> arg = Some [] \<Longrightarrow>
                  (\<forall>x \<in> set (Conversations db). conversation_id x \<noteq> uuid (io_lookup cio))
                  \<and> uuid (io_lookup cio) \<noteq> []"
    and up: "\<not> query_fails (fault j)"
  shows "res_conversationId r \<noteq> []"
    and "res_conversationId r = (case arg of Some c \<Rightarrow> if c \<noteq> [] then c else uuid (io_lookup cio)
                                 | None \<Rightarrow> uuid (io_lookup cio))"
    and "res_response r = canned_paragraph (classify (toLowerCase msg))"
    and "meta_messageCount (res_metadata r) = persistedMessageCount j (res_conversationId r) db + 2"
    and "\<exists>c. getConversation j (res_conversationId r) db' = Inr (Some c)
           \<and> messageCount c = persistedMessageCount j (res_conversationId r) db + 2"
proof -
  from step1_total [OF run] obtain conv cid ctx db1 where
    step1: "(case arg of
              Some cid \<Rightarrow> if cid \<noteq> [] then load_branch cm cfg cio cid db
                          else create_branch cfg cio uid context db
            | None \<Rightarrow> create_branch cfg cio uid context db) = (Inr (conv, cid, ctx), db1)"
    by blast
  from processChatMessage_after_step1 [OF run step1] obtain m1 db2 m2 meta1 meta2 where
    u: "addMessage (io_user cio) cid ''user'' msg meta1 db1 = (Inr m1, db2)"
    and v: "addMessage (io_assistant cio) cid ''assistant'' (canned_paragraph (classify (toLowerCase msg))) meta2 db2 = (Inr m2, db')"
    and rid: "res_conversationId r = cid"
    and resp: "res_response r = canned_paragraph (classify (toLowerCase msg))"
    and meta: "meta_messageCount (res_metadata r) = messageCount conv + 2"
    by blast
  have base: "cid \<noteq> []
      \<and> cid = (case arg of Some c \<Rightarrow> if c \<noteq> [] then c else uuid (io_lookup cio) | None \<Rightarrow> uuid (io_lookup cio))
      \<and> (\<exists>ns. map message_count (select_conversation cid db1) = messageCount conv # ns)
      \<and> persistedMessageCount j cid db = messageCount conv"
  proof (cases "arg = None \<or> arg = Some []")
    case True
    then have cb: "create_branch cfg cio uid context db = (Inr (conv, cid, ctx), db1)"
      using step1 by auto
    note s = create_branch_success [OF cb]
    from fresh [OF True] have fr: "\<forall>x \<in> set (Conversations db). conversation_id x \<noteq> cid" "cid \<noteq> []"
      using s(1) by simp_all
    have one: "map message_count (select_conversation cid db1) = [0]"
      using select_conversation_created [of "Conversations db" cid db1] fr(1) s(3) s(1) by simp
    have "select_conversation cid db = []"
      unfolding select_conversation_def filter_empty_conv using fr(1) by blast
    then have "persistedMessageCount j cid db = 0"
      by (simp add: persisted_of_counts [OF up])
    with one fr(2) s(1) s(2) True show ?thesis by auto
  next
    case False
    then obtain c where arg: "arg = Some c" "c \<noteq> []" by (cases arg) auto
    then have lb: "load_branch cm cfg cio c db = (Inr (conv, cid, ctx), db1)"
      using step1 by simp
    note s = load_branch_success [OF lb]
    from s(3) obtain r0 rs where sel: "select_conversation c db = r0 # rs" "messageCount conv = message_count r0"
      by blast
    have "persistedMessageCount j c db = messageCount conv"
      using sel by (simp add: persisted_of_counts [OF up])
    moreover have "map message_count (select_conversation c db1) = messageCount conv # map message_count rs"
      using sel s(1) by simp
    ultimately show ?thesis using arg s(2) by simp
  qed
  note b1 = conjunct1 [OF base]
  note b2 = conjunct1 [OF conjunct2 [OF base]]
  note b3 = conjunct1 [OF conjunct2 [OF conjunct2 [OF base]]]
  note b4 = conjunct2 [OF conjunct2 [OF conjunct2 [OF base]]]
  from b3 obtain ns where l1: "map message_count (select_conversation cid db1) = messageCount conv # ns" ..
  have l2: "map message_count (select_conversation cid db') = (messageCount conv + 2) # map (\<lambda>n. n + 2) ns"
    using addMessage_success(2) [OF u] addMessage_success(2) [OF v] l1 by (simp add: comp_def)
  show "res_conversationId r \<noteq> []" unfolding rid by (rule b1)
  show "res_conversationId r = (case arg of Some c \<Rightarrow> if c \<noteq> [] then c else uuid (io_lookup cio)
                                 | None \<Rightarrow> uuid (io_lookup cio))"
    unfolding rid by (rule b2)
  show "res_response r = canned_paragraph (classify (toLowerCase msg))" by (rule resp)
  show "meta_messageCount (res_metadata r) = persistedMessageCount j (res_conversationId r) db + 2"
    unfolding rid b4 by (rule meta)
  show "\<exists>c. getConversation j (res_conversationId r) db' = Inr (Some c)
           \<and> messageCount c = persistedMessageCount j (res_conversationId r) db + 2"
    unfolding rid b4 by (rule getConversation_count [OF up l2])
qed

text \<open>
  A successful \<open>processChatMessage\<close> call returns the conversation id (the one given,
  or the fresh one of the conversation it created), the response text, and a
  \<open>messageCount\<close> equal to the count persisted before the call plus 2, which is also
  the count persisted after it. A second successful call on the returned id reports and
  leaves the count at the first one's start plus 4.
\<close>

theorem processChatMessage_counts_two_per_call:
  assumes first: "processChatMessage cm cfg cio1 msg1 arg uid1 context1 db = (Inr r1, db1)"
    and second: "processChatMessage cm cfg cio2 msg2 (Some (res_conversationId r1)) uid2 context2 db1 = (Inr r2, db2)"
    and fresh: "arg = None \<or> arg = Some [] \<Longrightarrow>
                  (\<forall>x \<in> set (Conversations db). conversation_id x \<noteq> uuid (io_lookup cio1))
                  \<and> uuid (io_lookup cio1) \<noteq> []"
    and up: "\<not> query_fails (fault j)"
  shows "res_conversationId r1 = (case arg of Some c \<Rightarrow> if c \<noteq> [] then c else uuid (io_lookup cio1)
                                   | None \<Rightarrow> uuid (io_lookup cio1))
       \<and> res_response r1 = canned_paragraph (classify (toLowerCase msg1))
       \<and> meta_messageCount (res_metadata r1) = persistedMessageCount j (res_conversationId r1) db + 2
       \<and> persistedMessageCount j (res_conversationId r1) db1 = persistedMessageCount j (res_conversationId r1) db + 2
       \<and> res_conversationId r2 = res_conversationId r1
       \<and> res_response r2 = canned_paragraph (classify (toLowerCase msg2))
       \<and> meta_messageCount (res_metadata r2) = persistedMessageCount j (res_conversationId r1) db + 4
       \<and> (\<exists>c. getConversation j (res_conversationId r1) db2 = Inr (Some c)
              \<and> messageCount c = persistedMessageCount j (res_conversationId r1) db + 4)"
proof -
  note a = processChatMessage_step [OF first fresh up]
  have ne: "res_conversationId r1 \<noteq> []" using a(1) by simp
  have nofresh: "Some (res_conversationId r1) = None \<or> Some (res_conversationId r1) = Some [] \<Longrightarrow>
                  (\<forall>x \<in> set (Conversations db1). conversation_id x \<noteq> uuid (io_lookup cio2))
                  \<and> uuid (io_lookup cio2) \<noteq> []"
    using ne by simp
  note b = processChatMessage_step [OF second nofresh up]
  have same: "res_conversationId r2 = res_conversationId r1"
    using b(2) ne by simp
  from a(5) obtain c1 where c1: "getConversation j (res_conversationId r1) db1 = Inr (Some c1)"
    "messageCount c1 = persistedMessageCount j (res_conversationId r1) db + 2" by blast
  have p1: "persistedMessageCount j (res_conversationId r1) db1 = persistedMessageCount j (res_conversationId r1) db + 2"
    using c1 by (simp add: persistedMessageCount_def)
  have m2: "meta_messageCount (res_metadata r2) = persistedMessageCount j (res_conversationId r1) db + 4"
    using b(4) same p1 by simp
  have g2: "\<exists>c. getConversation j (res_conversationId r1) db2 = Inr (Some c)
              \<and> messageCount c = persistedMessageCount j (res_conversationId r1) db + 4"
    using b(5) same p1 by (simp add: add.commute)
  from a(2) a(3) a(4) p1 same b(3) m2 g2 show ?thesis by (intro conjI)
qed

lemma createConversation_runs:
  assumes "fault i = None"
  shows "\<exists>conv db1. createConversation i uid meta db = (Inr conv, db1)"
  using assms by (simp add: createConversation_def executeBatch_single Let_def)

lemma addMessage_runs:
  assumes "fault i = None"
  shows "\<exists>m1 db1. addMessage i cid rl t m db = (Inr m1, db1)"
  using assms by (simp add: addMessage_cases)

lemma processChatMessage_runs_after_step1:
  assumes step1: "(case arg of
              Some cid \<Rightarrow> if cid \<noteq> [] then load_branch cm cfg cio cid db
                          else create_branch cfg cio uid context db
            | None \<Rightarrow> create_branch cfg cio uid context db) = (Inr (conv, cid, ctx), db1)"
    and ok: "fault (io_user cio) = None" "fault (io_assistant cio) = None"
  shows "\<exists>r db'. processChatMessage cm cfg cio msg arg uid context db = (Inr r, db')"
proof -
  let ?meta1 = "JsonObject [(''context'', context),
                               (''timestamp'', JsonNumber (of_int (date_now (io_user cio))))]"
  from addMessage_runs [OF ok(1)] obtain m1 db2 where
    u: "addMessage (io_user cio) cid ''user'' msg ?meta1 db1 = (Inr m1, db2)" by blast
  let ?ai = "\<lparr> ai_content = Some (canned_paragraph (classify (toLowerCase msg))),
             ai_responseTime = gen_end cio - gen_start cio,
             ai_tokenCount = AIService_estimateTokenCount (canned_paragraph (classify (toLowerCase msg))),
             ai_model = model cfg, ai_error = False \<rparr>"
  let ?meta2 = "JsonObject [(''model'', JsonString (model cfg)),
                                         (''temperature'', JsonNumber (temperature cfg)),
                                         (''responseTime'', JsonNumber (of_int (ai_responseTime ?ai))),
                                         (''tokenCount'', JsonNumber (of_int (ai_tokenCount ?ai)))]"
  from addMessage_runs [OF ok(2)] obtain m2 db3 where
    v: "addMessage (io_assistant cio) cid ''assistant'' (canned_paragraph (classify (toLowerCase msg))) ?meta2 db2 = (Inr m2, db3)" by blast
  show ?thesis
    using u v by (simp add: processChatMessage_def step1 generate_on_user_message)
qed

lemma processChatMessage_creates:
  assumes "arg = None \<or> arg = Some []"
    and ok: "fault (io_lookup cio) = None" "fault (io_user cio) = None" "fault (io_assistant cio) = None"
  shows "\<exists>r db'. processChatMessage cm cfg cio msg arg uid context db = (Inr r, db')"
proof -
  from createConversation_runs [OF ok(1)] obtain conv db1 where
    "createConversation (io_lookup cio) uid context db = (Inr conv, db1)" by blast
  then have "\<exists>conv cid ctx db1. (case arg of
              Some cid \<Rightarrow> if cid \<noteq> [] then load_branch cm cfg cio cid db
                          else create_branch cfg cio uid context db
            | None \<Rightarrow> create_branch cfg cio uid context db) = (Inr (conv, cid, ctx), db1)"
    using assms(1) by (auto simp: create_branch_def)
  then show ?thesis using processChatMessage_runs_after_step1 [OF _ ok(2,3)] by blast
qed

lemma processChatMessage_loads:
  assumes "cid \<noteq> []" "getConversation (io_lookup cio) cid db = Inr (Some c)"
    and ok: "fault (io_history cio) = None" "fault (io_user cio) = None" "fault (io_assistant cio) = None"
    and accepted: "dialect (io_history cio) history_shape"
  shows "\<exists>r db'. processChatMessage cm cfg cio msg (Some cid) uid context db = (Inr r, db')"
proof -
  have "\<not> select_fails (io_history cio) history_shape"
    using ok(1) accepted by (simp add: select_fails_def query_fails_def)
  from history_total [OF this] obtain h where "getConversationHistory cm (io_history cio) cid None 0 db = Inr h"
    by blast
  then have "\<exists>conv cid' ctx db1. (case Some cid of
              Some cid \<Rightarrow> if cid \<noteq> [] then load_branch cm cfg cio cid db
                          else create_branch cfg cio uid context db
            | None \<Rightarrow> create_branch cfg cio uid context db) = (Inr (conv, cid', ctx), db1)"
    using assms(1,2) by (simp add: load_branch_def buildConversationContext_def)
  then show ?thesis using processChatMessage_runs_after_step1 [OF _ ok(2,3)] by blast
qed

theorem processChatMessage_counts_two_per_call_example:
  "\<exists>r1 db1 r2 db2.
      processChatMessage (new_ConversationManager None None) example_cfg (chat_io_at any_shape ''c-9'' 5)
        ''I need a house'' None (Some ''u1'') JsonNull empty_store = (Inr r1, db1)
    \<and> res_conversationId r1 = ''c-9''
    \<and> str_includes (res_response r1) ''property''
    \<and> meta_messageCount (res_metadata r1) = 2
    \<and> processChatMessage (new_ConversationManager None None) example_cfg (chat_io_at any_shape ''x'' 50)
        ''What is the price?'' (Some ''c-9'') (Some ''u1'') JsonNull db1 = (Inr r2, db2)
    \<and> meta_messageCount (res_metadata r2) = 4
    \<and> (\<exists>c. getConversation (io_at any_shape [] 99) ''c-9'' db2 = Inr (Some c) \<and> messageCount c = 4)"
proof -
  let ?cm = "new_ConversationManager None None"
  let ?j = "io_at any_shape [] 99"
  have up: "\<not> query_fails (fault ?j)" by (simp add: query_fails_def)
  have fresh: "None = None \<or> None = Some [] \<Longrightarrow>
                  (\<forall>x \<in> set (Conversations empty_store). conversation_id x \<noteq> uuid (io_lookup (chat_io_at any_shape ''c-9'' 5)))
                  \<and> uuid (io_lookup (chat_io_at any_shape ''c-9'' 5)) \<noteq> []"
    by (simp add: empty_store_def chat_io_at_def)
  have "\<exists>r db'. processChatMessage ?cm example_cfg (chat_io_at any_shape ''c-9'' 5)
        ''I need a house'' None (Some ''u1'') JsonNull empty_store = (Inr r, db')"
    by (rule processChatMessage_creates) (simp_all add: chat_io_at_def)
  then obtain r1 db1 where first: "processChatMessage ?cm example_cfg (chat_io_at any_shape ''c-9'' 5)
        ''I need a house'' None (Some ''u1'') JsonNull empty_store = (Inr r1, db1)"
    by blast
  note s = processChatMessage_step [OF first fresh up]
  have id1: "res_conversationId r1 = ''c-9''" using s(2) by (simp add: chat_io_at_def)
  have zero: "persistedMessageCount ?j ''c-9'' empty_store = 0"
    by (simp add: persistedMessageCount_def getConversation_def query_fails_def
        select_conversation_def empty_store_def)
  from s(5) obtain c1 where "getConversation ?j ''c-9'' db1 = Inr (Some c1)"
    unfolding id1 by blast
  then have "\<exists>c. getConversation (io_lookup (chat_io_at any_shape ''x'' 50)) ''c-9'' db1 = Inr (Some c)"
    by (simp add: getConversation_def query_fails_def chat_io_at_def split: list.splits)
  then obtain c where vis: "getConversation (io_lookup (chat_io_at any_shape ''x'' 50)) ''c-9'' db1 = Inr (Some c)" ..
  have "\<exists>r db'. processChatMessage ?cm example_cfg (chat_io_at any_shape ''x'' 50)
        ''What is the price?'' (Some ''c-9'') (Some ''u1'') JsonNull db1 = (Inr r, db')"
    by (rule processChatMessage_loads [OF _ vis]) (simp_all add: chat_io_at_def any_shape_def)
  then obtain r2 db2 where second: "processChatMessage ?cm example_cfg (chat_io_at any_shape ''x'' 50)
        ''What is the price?'' (Some (res_conversationId r1)) (Some ''u1'') JsonNull db1 = (Inr r2, db2)"
    unfolding id1 by blast
  note t = processChatMessage_counts_two_per_call [OF first second fresh up]
  have resp: "str_includes (res_response r1) ''property''"
    using t house_is_property property_paragraph_says_property by simp
  have m1: "meta_messageCount (res_metadata r1) = 2" using t zero id1 by simp
  have m2: "meta_messageCount (res_metadata r2) = 4" using t zero id1 by simp
  have g: "\<exists>c. getConversation ?j ''c-9'' db2 = Inr (Some c) \<and> messageCount c = 4"
    using t zero id1 by simp
  show ?thesis
    apply (rule exI [of _ r1], rule exI [of _ db1], rule exI [of _ r2], rule exI [of _ db2])
    by (intro conjI first id1 resp m1 second [unfolded id1] m2 g)
qed

lemma processChatMessage_existing_rejected:
  assumes "cid \<noteq> []" "dialect (io_history cio) = tsql_accepts"
  shows "\<exists>e. processChatMessage cm cfg cio msg (Some cid) uid context db = (Inl e, db)"
proof -
  have b: "buildConversationContext cm cfg (io_history cio) cid True db = Inl PersistenceError"
    using assms(2) by (simp add: buildConversationContext_def getConversationHistory_rejected)
  have "\<exists>e. load_branch cm cfg cio cid db = (Inl e, db)"
    by (simp add: load_branch_def b split: sum.splits option.splits)
  then obtain e where "load_branch cm cfg cio cid db = (Inl e, db)" ..
  then have "processChatMessage cm cfg cio msg (Some cid) uid context db = (Inl e, db)"
    using assms(1) by (simp add: processChatMessage_def)
  then show ?thesis ..
qed

text \<open>
  Claim C5 asks that a successful call reports the prior count plus 2 and that two
  successive calls on the same conversation id add 4. A call that succeeds does report
  and persist the prior count plus 2. But a call on an existing conversation builds its
  context through the history statement SQL Server rejects: the second call on the
  returned id throws before it writes, and the persisted count stays at the first one's
  start plus 2.
\<close>

theorem second_processChatMessage_fails_on_sql_server:
  assumes first: "processChatMessage cm cfg cio1 msg1 arg uid1 context1 db = (Inr r1, db1)"
    and fresh: "arg = None \<or> arg = Some [] \<Longrightarrow>
                  (\<forall>x \<in> set (Conversations db). conversation_id x \<noteq> uuid (io_lookup cio1))
                  \<and> uuid (io_lookup cio1) \<noteq> []"
    and up: "\<not> query_fails (fault j)"
    and engine: "dialect (io_history cio2) = tsql_accepts"
  shows "meta_messageCount (res_metadata r1) = persistedMessageCount j (res_conversationId r1) db + 2
       \<and> (\<exists>e. processChatMessage cm cfg cio2 msg2 (Some (res_conversationId r1)) uid2 context2 db1
                = (Inl e, db1))
       \<and> persistedMessageCount j (res_conversationId r1) db1
           = persistedMessageCount j (res_conversationId r1) db + 2"
proof -
  note a = processChatMessage_step [OF first fresh up]
  from a(5) obtain c1 where c1: "getConversation j (res_conversationId r1) db1 = Inr (Some c1)"
    "messageCount c1 = persistedMessageCount j (res_conversationId r1) db + 2" by blast
  have p1: "persistedMessageCount j (res_conversationId r1) db1
      = persistedMessageCount j (res_conversationId r1) db + 2"
    using c1 by (simp add: persistedMessageCount_def)
  from a(4) processChatMessage_existing_rejected [OF a(1) engine] p1 show ?thesis by (intro conjI)
qed

theorem second_processChatMessage_fails_on_sql_server_witness:
  "\<exists>r1 db1.
      processChatMessage (new_ConversationManager None None) example_cfg (chat_io_at tsql_accepts ''c-9'' 5)
        ''I need a house'' None (Some ''u1'') JsonNull empty_store = (Inr r1, db1)
    \<and> res_conversationId r1 = ''c-9''
    \<and> meta_messageCount (res_metadata r1) = 2
    \<and> (\<exists>e. processChatMessage (new_ConversationManager None None) example_cfg
              (chat_io_at tsql_accepts ''x'' 50) ''What is the price?'' (Some ''c-9'') (Some ''u1'')
              JsonNull db1 = (Inl e, db1))
    \<and> persistedMessageCount (io_at tsql_accepts [] 99) ''c-9'' db1 = 2"
proof -
  let ?cm = "new_ConversationManager None None"
  let ?j = "io_at tsql_accepts [] 99"
  have up: "\<not> query_fails (fault ?j)" by (simp add: query_fails_def)
  have fresh: "None = None \<or> None = Some [] \<Longrightarrow>
                  (\<forall>x \<in> set (Conversations empty_store).
                      conversation_id x \<noteq> uuid (io_lookup (chat_io_at tsql_accepts ''c-9'' 5)))
                  \<and> uuid (io_lookup (chat_io_at tsql_accepts ''c-9'' 5)) \<noteq> []"
    by (simp add: empty_store_def chat_io_at_def)
  have "\<exists>r db'. processChatMessage ?cm example_cfg (chat_io_at tsql_accepts ''c-9'' 5)
        ''I need a house'' None (Some ''u1'') JsonNull empty_store = (Inr r, db')"
    by (rule processChatMessage_creates) (simp_all add: chat_io_at_def)
  then obtain r1 db1 where first: "processChatMessage ?cm example_cfg (chat_io_at tsql_accepts ''c-9'' 5)
        ''I need a house'' None (Some ''u1'') JsonNull empty_store = (Inr r1, db1)"
    by blast
  note s = processChatMessage_step [OF first fresh up]
  have id1: "res_conversationId r1 = ''c-9''" using s(2) by (simp add: chat_io_at_def)
  have zero: "persistedMessageCount ?j ''c-9'' empty_store = 0"
    by (simp add: persistedMessageCount_def getConversation_def query_fails_def
        select_conversation_def empty_store_def)
  have engine: "dialect (io_history (chat_io_at tsql_accepts ''x'' 50)) = tsql_accepts"
    by (simp add: chat_io_at_def)
  note t = second_processChatMessage_fails_on_sql_server
             [OF first fresh up engine, of "''What is the price?''" "Some ''u1''" JsonNull]
  have m1: "meta_messageCount (res_metadata r1) = 2" using t zero id1 by simp
  have f2: "\<exists>e. processChatMessage ?cm example_cfg (chat_io_at tsql_accepts ''x'' 50)
              ''What is the price?'' (Some ''c-9'') (Some ''u1'') JsonNull db1 = (Inl e, db1)"
    using t id1 by simp
  have p2: "persistedMessageCount ?j ''c-9'' db1 = 2" using t zero id1 by simp
  show ?thesis
    apply (rule exI [of _ r1], rule exI [of _ db1])
    by (intro conjI first id1 m1 f2 p2)
qed

section \<open>Status updates\<close>

lemma status_row_update_fields:
  "conversation_id (status_row_update st meta now r) = conversation_id r"
  "user_id (status_row_update st meta now r) = user_id r"
  "status (status_row_update st meta now r) = st"
  "updated_at (status_row_update st meta now r) = now"
  "message_count (status_row_update st meta now r) = message_count r"
  "created_at (status_row_update st meta now r) = created_at r"
  by (simp_all add: status_row_update_def split: option.splits)

lemma update_status_rows:
  "Conversations (update_status cid st meta now db) =
     map (\<lambda>r. if conversation_id r = cid then status_row_update st meta now r else r) (Conversations db)"
  by (simp add: update_status_def)

lemma update_status_ids:
  "map conversation_id (Conversations (update_status cid st meta now db)) = map conversation_id (Conversations db)"
  by (simp add: update_status_rows status_row_update_fields comp_def if_distrib [of conversation_id])

lemma rowsAffected_ids:
  "update_status_rowsAffected cid db = length (filter (\<lambda>c. c = cid) (map conversation_id (Conversations db)))"
  by (simp add: update_status_rowsAffected_def filter_map comp_def)

lemma update_status_hit:
  assumes "r' \<in> set (Conversations (update_status cid st meta now db))" "conversation_id r' = cid"
  shows "status r' = st \<and> updated_at r' = now"
proof -
  from assms(1) obtain r where "r \<in> set (Conversations db)"
    and r': "r' = (if conversation_id r = cid then status_row_update st meta now r else r)"
    by (auto simp: update_status_rows)
  with assms(2) show ?thesis
    by (cases "conversation_id r = cid") (simp_all add: status_row_update_fields)
qed

text \<open>
  Claim C8. \<open>updateConversationStatus\<close> fails with "Conversation not found" exactly
  when the update runs and affects no row (it fails with a persistence error exactly
  when the gateway fails); when at least one row is affected it completes without
  error, and every row of that id then carries the new status and the refreshed update
  timestamp.
\<close>

theorem updateConversationStatus_not_found_iff:
  assumes "updateConversationStatus i cid st meta db = (res, db')"
  shows "(res = Inl ConversationNotFound \<longleftrightarrow>
            \<not> query_fails (fault i) \<and> update_status_rowsAffected cid db = 0)
       \<and> (res = Inl PersistenceError \<longleftrightarrow> query_fails (fault i))
       \<and> (\<not> query_fails (fault i) \<and> 0 < update_status_rowsAffected cid db \<longrightarrow>
            res = Inr ()
            \<and> (\<forall>r \<in> set (Conversations db'). conversation_id r = cid \<longrightarrow>
                  status r = st \<and> updated_at r = getdate i)
            \<and> update_status_rowsAffected cid db' = update_status_rowsAffected cid db)"
proof (cases "query_fails (fault i)")
  case True
  with assms have "res = Inl PersistenceError"
    by (simp add: updateConversationStatus_def executeBatch_single query_fails_def)
  with True show ?thesis by simp
next
  case False
  with assms have db': "db' = update_status cid st meta (getdate i) db"
    and res: "res = (if update_status_rowsAffected cid db = 0 then Inl ConversationNotFound else Inr ())"
    by (simp_all add: updateConversationStatus_def executeBatch_single query_fails_def split: if_splits)
  have hit: "\<forall>r \<in> set (Conversations db'). conversation_id r = cid \<longrightarrow>
                  status r = st \<and> updated_at r = getdate i"
    unfolding db' using update_status_hit by blast
  have same: "update_status_rowsAffected cid db' = update_status_rowsAffected cid db"
    unfolding db' by (simp add: rowsAffected_ids update_status_ids)
  have c1: "res = Inl ConversationNotFound \<longleftrightarrow>
            \<not> query_fails (fault i) \<and> update_status_rowsAffected cid db = 0"
    using False res by simp
  have c2: "res = Inl PersistenceError \<longleftrightarrow> query_fails (fault i)"
    using False res by simp
  have c3: "0 < update_status_rowsAffected cid db \<Longrightarrow> res = Inr ()"
    using res by simp
  from c1 c2 c3 hit same show ?thesis by blast
qed

theorem updateConversationStatus_not_found_iff_witness:
  "\<not> query_fails (fault example_io)
   \<and> 0 < update_status_rowsAffected ''c-1'' deleted_store
   \<and> fst (updateConversationStatus example_io ''c-1'' ''paused'' None deleted_store) = Inr ()
   \<and> update_status_rowsAffected ''c-2'' deleted_store = 0
   \<and> fst (updateConversationStatus example_io ''c-2'' ''paused'' None deleted_store) = Inl ConversationNotFound"
  using updateConversationStatus_not_found_iff
          [of example_io "''c-1''" "''paused''" None deleted_store, OF prod.collapse [symmetric]]
        updateConversationStatus_not_found_iff
          [of example_io "''c-2''" "''paused''" None deleted_store, OF prod.collapse [symmetric]]
  by (simp add: query_fails_def example_io_def update_status_rowsAffected_def deleted_store_def)






section \<open>Retention cleanup\<close>

lemma cleanup_update_rows:
  "Conversations (cleanup_update cutoff now db) =
     map (\<lambda>r. if cleanup_selects cutoff r then r\<lparr>status := ''deleted'', updated_at := now\<rparr> else r)
       (Conversations db)"
  by (simp add: cleanup_update_def)

lemma cleanup_update_messages: "Messages (cleanup_update cutoff now db) = Messages db"
  by (simp add: cleanup_update_def)

lemma cleanup_row_changed:
  "(if cleanup_selects cutoff r then r\<lparr>status := ''deleted'', updated_at := now\<rparr> else r) \<noteq> r
     \<longleftrightarrow> cleanup_selects cutoff r"
proof (cases "cleanup_selects cutoff r")
  case True
  then have "status (r\<lparr>status := ''deleted'', updated_at := now\<rparr>) \<noteq> status r"
    by (auto simp: cleanup_selects_def)
  then have "r\<lparr>status := ''deleted'', updated_at := now\<rparr> \<noteq> r" by metis
  with True show ?thesis by simp
next
  case False
  then show ?thesis by simp
qed

lemma cutoffDate_offset:
  "cutoffDate cm i = date_now i - dataRetentionDays cm * msPerDay
     + (LocalTZA i (date_now i) True
        - LocalTZA i (date_now i + LocalTZA i (date_now i) True - dataRetentionDays cm * msPerDay) False)"
  by (simp add: cutoffDate_def Let_def)

text \<open>
  Claim C7. When the gateway does not fail, \<open>cleanupOldConversations\<close> leaves every
  conversation created before the cut-off with status \<open>deleted\<close> and no other
  conversation with a changed row; the rows it changes are the expired ones not yet
  deleted, each differing from what it was in its status and its refreshed update
  timestamp only, and the number it returns is the number of rows it changed. The cut-off
  is the retention days before now on the local calendar: the retention days times 24 hours
  before now, moved by the difference between the zone's offset now and its offset at the
  cut-off. With a retention of 90 days, in a zone where that difference is more than minus
  one day and at most one day, a conversation created 91 days of 24 hours ago (or earlier)
  ends deleted and one created 89 days of 24 hours ago (or later) is unchanged.
\<close>

theorem cleanupOldConversations_soft_deletes_expired:
  assumes up: "\<not> query_fails (fault i)"
  shows "\<exists>n db'. cleanupOldConversations cm i db = (Inr n, db')
      \<and> length (Conversations db') = length (Conversations db)
      \<and> Messages db' = Messages db
      \<and> (\<forall>k < length (Conversations db).
            (status (Conversations db' ! k) = ''deleted'' \<longleftrightarrow>
               created_at (Conversations db ! k) < cutoffDate cm i
               \<or> status (Conversations db ! k) = ''deleted'')
          \<and> (Conversations db' ! k \<noteq> Conversations db ! k \<longleftrightarrow>
               created_at (Conversations db ! k) < cutoffDate cm i
               \<and> status (Conversations db ! k) \<noteq> ''deleted'')
          \<and> (Conversations db' ! k \<noteq> Conversations db ! k \<longrightarrow>
               Conversations db' ! k
                 = (Conversations db ! k)\<lparr>status := ''deleted'', updated_at := getdate i\<rparr>))
      \<and> n = card {k. k < length (Conversations db) \<and> Conversations db' ! k \<noteq> Conversations db ! k}
      \<and> cutoffDate cm i = date_now i - dataRetentionDays cm * msPerDay
           + (LocalTZA i (date_now i) True
              - LocalTZA i (date_now i + LocalTZA i (date_now i) True
                              - dataRetentionDays cm * msPerDay) False)
      \<and> (dataRetentionDays cm = 90
           \<and> - msPerDay < LocalTZA i (date_now i) True
                 - LocalTZA i (date_now i + LocalTZA i (date_now i) True - 90 * msPerDay) False
           \<and> LocalTZA i (date_now i) True
                 - LocalTZA i (date_now i + LocalTZA i (date_now i) True - 90 * msPerDay) False
               \<le> msPerDay \<longrightarrow>
           (\<forall>k < length (Conversations db).
              (created_at (Conversations db ! k) \<le> date_now i - 91 * msPerDay
                 \<longrightarrow> status (Conversations db' ! k) = ''deleted'')
            \<and> (created_at (Conversations db ! k) \<ge> date_now i - 89 * msPerDay
                 \<longrightarrow> Conversations db' ! k = Conversations db ! k)))"
proof -
  let ?cut = "cutoffDate cm i"
  let ?db' = "cleanup_update ?cut (getdate i) db"
  let ?old = "Conversations db"
  let ?n = "length (filter (cleanup_selects ?cut) ?old)"
  let ?shift = "LocalTZA i (date_now i) True
                 - LocalTZA i (date_now i + LocalTZA i (date_now i) True - 90 * msPerDay) False"
  have run: "cleanupOldConversations cm i db = (Inr ?n, ?db')"
    using up by (simp add: cleanupOldConversations_def executeBatch_single query_fails_def)
  have len: "length (Conversations ?db') = length ?old"
    by (simp add: cleanup_update_rows)
  have nth: "Conversations ?db' ! k =
      (if cleanup_selects ?cut (?old ! k) then (?old ! k)\<lparr>status := ''deleted'', updated_at := getdate i\<rparr> else ?old ! k)"
    if "k < length ?old" for k
    using that by (simp add: cleanup_update_rows)
  have changed: "Conversations ?db' ! k \<noteq> ?old ! k \<longleftrightarrow> cleanup_selects ?cut (?old ! k)"
    if "k < length ?old" for k
    using nth [OF that] cleanup_row_changed [of ?cut "?old ! k" "getdate i"] by simp
  have changed': "Conversations ?db' ! k \<noteq> ?old ! k \<longleftrightarrow>
               created_at (?old ! k) < ?cut \<and> status (?old ! k) \<noteq> ''deleted''"
    if "k < length ?old" for k
    using changed [OF that] by (simp add: cleanup_selects_def)
  have stat: "status (Conversations ?db' ! k) = ''deleted'' \<longleftrightarrow>
               created_at (?old ! k) < ?cut \<or> status (?old ! k) = ''deleted''"
    if "k < length ?old" for k
    using nth [OF that] by (auto simp: cleanup_selects_def)
  have upd: "Conversations ?db' ! k = (?old ! k)\<lparr>status := ''deleted'', updated_at := getdate i\<rparr>"
    if "k < length ?old" "Conversations ?db' ! k \<noteq> ?old ! k" for k
    using nth [OF that(1)] changed [OF that(1)] that(2) by simp
  have count: "?n = card {k. k < length ?old \<and> Conversations ?db' ! k \<noteq> ?old ! k}"
  proof -
    have "{k. k < length ?old \<and> Conversations ?db' ! k \<noteq> ?old ! k}
        = {k. k < length ?old \<and> cleanup_selects ?cut (?old ! k)}"
      using changed by blast
    then show ?thesis by (simp add: length_filter_conv_card)
  qed
  have per_row: "(status (Conversations ?db' ! k) = ''deleted'' \<longleftrightarrow>
               created_at (?old ! k) < ?cut \<or> status (?old ! k) = ''deleted'')
          \<and> (Conversations ?db' ! k \<noteq> ?old ! k \<longleftrightarrow>
               created_at (?old ! k) < ?cut \<and> status (?old ! k) \<noteq> ''deleted'')
          \<and> (Conversations ?db' ! k \<noteq> ?old ! k \<longrightarrow>
               Conversations ?db' ! k = (?old ! k)\<lparr>status := ''deleted'', updated_at := getdate i\<rparr>)"
    if "k < length ?old" for k
    using stat [OF that] changed' [OF that] upd [OF that] by blast
  have ninety: "(created_at (?old ! k) \<le> date_now i - 91 * msPerDay
                 \<longrightarrow> status (Conversations ?db' ! k) = ''deleted'')
            \<and> (created_at (?old ! k) \<ge> date_now i - 89 * msPerDay
                 \<longrightarrow> Conversations ?db' ! k = ?old ! k)"
    if k: "k < length ?old" and d: "dataRetentionDays cm = 90"
      and lo: "- msPerDay < ?shift" and hi: "?shift \<le> msPerDay" for k
  proof -
    have cut: "?cut = date_now i - 90 * msPerDay + ?shift"
      using cutoffDate_offset [of cm i] d by simp
    have a: "created_at (?old ! k) < ?cut" if "created_at (?old ! k) \<le> date_now i - 91 * msPerDay"
      using that lo unfolding cut by simp
    have b: "\<not> created_at (?old ! k) < ?cut" if "created_at (?old ! k) \<ge> date_now i - 89 * msPerDay"
      using that hi unfolding cut by simp
    show ?thesis
      using stat [OF k] changed' [OF k] a b by blast
  qed
  have all_rows: "\<forall>k < length ?old.
            (status (Conversations ?db' ! k) = ''deleted'' \<longleftrightarrow>
               created_at (?old ! k) < ?cut \<or> status (?old ! k) = ''deleted'')
          \<and> (Conversations ?db' ! k \<noteq> ?old ! k \<longleftrightarrow>
               created_at (?old ! k) < ?cut \<and> status (?old ! k) \<noteq> ''deleted'')
          \<and> (Conversations ?db' ! k \<noteq> ?old ! k \<longrightarrow>
               Conversations ?db' ! k = (?old ! k)\<lparr>status := ''deleted'', updated_at := getdate i\<rparr>)"
    using per_row by blast
  have all_ninety: "dataRetentionDays cm = 90 \<and> - msPerDay < ?shift \<and> ?shift \<le> msPerDay \<longrightarrow>
           (\<forall>k < length ?old.
              (created_at (?old ! k) \<le> date_now i - 91 * msPerDay
                 \<longrightarrow> status (Conversations ?db' ! k) = ''deleted'')
            \<and> (created_at (?old ! k) \<ge> date_now i - 89 * msPerDay
                 \<longrightarrow> Conversations ?db' ! k = ?old ! k))"
    using ninety by blast
  show ?thesis
    apply (rule exI [of _ ?n], rule exI [of _ ?db'])
    apply (intro conjI)
           apply (rule run)
          apply (rule len)
         apply (rule cleanup_update_messages)
        apply (rule all_rows)
       apply (rule count)
      apply (rule cutoffDate_offset)
     apply (rule all_ninety)
    done
qed

theorem cleanupOldConversations_soft_deletes_expired_witness:
  "\<not> query_fails (fault november_3_noon)
   \<and> dataRetentionDays (new_ConversationManager None None) = 90
   \<and> date_now november_3_noon - 90 * msPerDay = 1754395200000
   \<and> cutoffDate (new_ConversationManager None None) november_3_noon = 1754391600000
   \<and> map created_at (Conversations retention_store) = [1754308800000, 1754393400000, 1754481600000]
   \<and> fst (cleanupOldConversations (new_ConversationManager None None) november_3_noon retention_store) = Inr 1
   \<and> map status (Conversations (snd (cleanupOldConversations (new_ConversationManager None None) november_3_noon retention_store)))
       = [''deleted'', ''active'', ''active'']"
proof -
  have h: "\<not> query_fails (fault november_3_noon)"
    by (simp add: query_fails_def november_3_noon_def)
  have c: "cutoffDate (new_ConversationManager None None) november_3_noon = 1754391600000"
    by (simp add: cutoffDate_def Let_def new_ConversationManager_def november_3_noon_def
        eastern_2025_def msPerDay_def)
  have e: "cleanupOldConversations (new_ConversationManager None None) november_3_noon retention_store
      = (Inr 1, \<lparr>Conversations =
        [\<lparr>conversation_id = ''old'', user_id = ''u1'', created_at = 1754308800000,
          updated_at = 1762171200000, status = ''deleted'', metadata = JsonObject [], message_count = 0\<rparr>,
         \<lparr>conversation_id = ''edge'', user_id = ''u1'', created_at = 1754393400000,
          updated_at = 1754393400000, status = ''active'', metadata = JsonObject [], message_count = 0\<rparr>,
         \<lparr>conversation_id = ''young'', user_id = ''u1'', created_at = 1754481600000,
          updated_at = 1754481600000, status = ''active'', metadata = JsonObject [], message_count = 0\<rparr>],
      Messages = []\<rparr>)"
    unfolding cleanupOldConversations_def c
    by (simp add: executeBatch_single cleanup_update_def cleanup_selects_def
        retention_store_def november_3_noon_def)
  from cleanupOldConversations_soft_deletes_expired [OF h, of "new_ConversationManager None None" retention_store]
  obtain n db' where "cleanupOldConversations (new_ConversationManager None None) november_3_noon retention_store = (Inr n, db')"
    by blast
  with e h c show ?thesis
    by (auto simp: new_ConversationManager_def november_3_noon_def msPerDay_def retention_store_def)
qed

section \<open>Market analysis over an empty window\<close>

lemma Math_round_0: "Math_round 0 = 0"
  unfolding Math_round_def by (rule floor_unique) simp_all

lemma getMarketAnalysis_never_not_found:
  "getMarketAnalysis bio location propertyType Properties \<noteq> Inl NoMarketDataFound"
  by (simp add: getMarketAnalysis_def market_recordset_def Let_def)

text \<open>
  Claim C6 asks for a not-found failure when no property row matches. The aggregate
  query returns its one row all the same, so the guard on an empty record set never
  fires: with no matching row the method returns an analysis of zero listings, with the
  averages of nothing rounded to 0.
\<close>

theorem getMarketAnalysis_empty_window_returns_zeros:
  assumes "\<not> query_fails (broker_fault bio)"
    and "filter (market_where bio location propertyType) Properties = []"
  shows "getMarketAnalysis bio location propertyType Properties =
     Inr \<lparr> ma_location = location, ma_propertyType = propertyType, totalListings = 0,
           ma_priceStatistics = \<lparr> average = 0, minimum = None, maximum = None, pricePerSquareFoot = None \<rparr>,
           ma_marketActivity = \<lparr> averageDaysOnMarket = 0, soldProperties = 0, activeListings = 0, absorptionRate = 0 \<rparr>,
           averageSquareFootage = 0, analysisDate = analysis_time bio, dataRange = ''Last 6 months'' \<rparr>"
  using assms
  by (simp add: getMarketAnalysis_def market_recordset_def sql_avg_def sql_min_def sql_max_def
      to_number_def Math_round_0)

theorem getMarketAnalysis_empty_window_returns_zeros_witness:
  "filter (market_where engine_day_120 ''Austin'' ''residential'') commercial_only = []
   \<and> getMarketAnalysis engine_day_120 ''Austin'' ''residential'' commercial_only =
     Inr \<lparr> ma_location = ''Austin'', ma_propertyType = ''residential'', totalListings = 0,
           ma_priceStatistics = \<lparr> average = 0, minimum = None, maximum = None, pricePerSquareFoot = None \<rparr>,
           ma_marketActivity = \<lparr> averageDaysOnMarket = 0, soldProperties = 0, activeListings = 0, absorptionRate = 0 \<rparr>,
           averageSquareFootage = 0, analysisDate = 0, dataRange = ''Last 6 months'' \<rparr>"
proof -
  have h: "\<not> query_fails (broker_fault engine_day_120)"
    by (simp add: query_fails_def engine_day_120_def)
  have f: "filter (market_where engine_day_120 ''Austin'' ''residential'') commercial_only = []"
    by (simp add: market_where_def commercial_only_def)
  from getMarketAnalysis_empty_window_returns_zeros [OF h f] f show ?thesis
    by (simp add: engine_day_120_def)
qed

end
